theory Spec2Isabelle
  imports Complex_Main "HOL-Library.Word"
begin

section \<open>JavaScript values\<close>

text \<open>
  A JavaScript number is NaN, one of the two infinities, or a finite value. The finite
  values are read as the reals they denote: rounding, overflow of a finite result and the
  sign of zero are left out of the model. The statements below use the arithmetic only
  through the special values (NaN, the infinities, zero) and through equality of terms.
\<close>

datatype num = NaN | PInf | NInf | Fin real

text \<open>\<^verbatim>\<open>@stdlib/math-base-assert-is-nan\<close>: \<^verbatim>\<open>x !== x\<close>.\<close>

fun isnan :: "num \<Rightarrow> bool" where
  "isnan NaN = True"
| "isnan _ = False"

fun is_finite :: "num \<Rightarrow> bool" where
  "is_finite (Fin _) = True"
| "is_finite _ = False"

text \<open>The comparisons \<^verbatim>\<open>a <= b\<close> and \<^verbatim>\<open>a > b\<close> on numbers: false when either side is NaN.\<close>

fun fle :: "num \<Rightarrow> num \<Rightarrow> bool" where
  "fle NaN _ = False"
| "fle _ NaN = False"
| "fle NInf _ = True"
| "fle _ PInf = True"
| "fle PInf _ = False"
| "fle _ NInf = False"
| "fle (Fin a) (Fin b) = (a \<le> b)"

fun fgt :: "num \<Rightarrow> num \<Rightarrow> bool" where
  "fgt NaN _ = False"
| "fgt _ NaN = False"
| "fgt a b = (\<not> fle a b)"

text \<open>An infinity with the sign of a nonzero real.\<close>

definition signed_inf :: "real \<Rightarrow> num" where
  "signed_inf a = (if 0 < a then PInf else NInf)"

fun fadd :: "num \<Rightarrow> num \<Rightarrow> num" where
  "fadd NaN _ = NaN"
| "fadd _ NaN = NaN"
| "fadd PInf NInf = NaN"
| "fadd NInf PInf = NaN"
| "fadd PInf _ = PInf"
| "fadd _ PInf = PInf"
| "fadd NInf _ = NInf"
| "fadd _ NInf = NInf"
| "fadd (Fin a) (Fin b) = Fin (a + b)"

fun fmul :: "num \<Rightarrow> num \<Rightarrow> num" where
  "fmul NaN _ = NaN"
| "fmul _ NaN = NaN"
| "fmul (Fin a) (Fin b) = Fin (a * b)"
| "fmul (Fin a) PInf = (if a = 0 then NaN else signed_inf a)"
| "fmul (Fin a) NInf = (if a = 0 then NaN else signed_inf (- a))"
| "fmul PInf (Fin b) = (if b = 0 then NaN else signed_inf b)"
| "fmul NInf (Fin b) = (if b = 0 then NaN else signed_inf (- b))"
| "fmul PInf PInf = PInf"
| "fmul PInf NInf = NInf"
| "fmul NInf PInf = NInf"
| "fmul NInf NInf = PInf"

fun fdiv :: "num \<Rightarrow> num \<Rightarrow> num" where
  "fdiv NaN _ = NaN"
| "fdiv _ NaN = NaN"
| "fdiv (Fin a) (Fin b) =
     (if b = 0 then (if a = 0 then NaN else signed_inf a) else Fin (a / b))"
| "fdiv (Fin a) PInf = Fin 0"
| "fdiv (Fin a) NInf = Fin 0"
| "fdiv PInf (Fin b) = (if 0 \<le> b then PInf else NInf)"
| "fdiv NInf (Fin b) = (if 0 \<le> b then NInf else PInf)"
| "fdiv PInf PInf = NaN"
| "fdiv PInf NInf = NaN"
| "fdiv NInf PInf = NaN"
| "fdiv NInf NInf = NaN"

text \<open>
  Addresses of mutable objects. A \<^verbatim>\<open>Uint32Array\<close> is a reference: two holders of one
  address see each other's writes. A function value carries the address of the state its
  closure keeps. A plain object is its list of own properties; it is only read here.
\<close>

type_synonym addr = nat

datatype jsval =
    JUndefined
  | JNull
  | JBool bool
  | JNum num
  | JStr string
  | JFun addr
  | JU32 addr
  | JArr "jsval list"
  | JObj "(string \<times> jsval) list"
  | JOther

text \<open>\<^verbatim>\<open>@stdlib/assert-is-plain-object\<close>.\<close>

fun isObject :: "jsval \<Rightarrow> bool" where
  "isObject (JObj _) = True"
| "isObject _ = False"

text \<open>\<^verbatim>\<open>@stdlib/assert-is-function\<close>.\<close>

fun isFunction :: "jsval \<Rightarrow> bool" where
  "isFunction (JFun _) = True"
| "isFunction _ = False"

text \<open>\<^verbatim>\<open>@stdlib/assert-has-own-property\<close> and property access \<^verbatim>\<open>o.k\<close>.\<close>

fun hasOwnProp :: "jsval \<Rightarrow> string \<Rightarrow> bool" where
  "hasOwnProp (JObj ps) k = (map_of ps k \<noteq> None)"
| "hasOwnProp _ k = False"

fun get_prop :: "jsval \<Rightarrow> string \<Rightarrow> jsval" where
  "get_prop (JObj ps) k = (case map_of ps k of None \<Rightarrow> JUndefined | Some v \<Rightarrow> v)"
| "get_prop _ k = JUndefined"

text \<open>Truthiness, as \<^verbatim>\<open>if ( v )\<close> and \<^verbatim>\<open>a && b\<close> read a value.\<close>

fun truthy :: "jsval \<Rightarrow> bool" where
  "truthy JUndefined = False"
| "truthy JNull = False"
| "truthy (JBool b) = b"
| "truthy (JNum n) = (\<not> isnan n \<and> n \<noteq> Fin 0)"
| "truthy (JStr s) = (s \<noteq> [])"
| "truthy _ = True"

text \<open>\<^verbatim>\<open>@stdlib/assert-is-number\<close>\<^verbatim>\<open>.isPrimitive\<close>: \<^verbatim>\<open>typeof x === 'number'\<close>.\<close>

fun isNumber :: "jsval \<Rightarrow> bool" where
  "isNumber (JNum _) = True"
| "isNumber _ = False"

text \<open>\<^verbatim>\<open>@stdlib/assert-is-nan\<close>, on a value that is already a number primitive.\<close>

fun isnan_val :: "jsval \<Rightarrow> bool" where
  "isnan_val (JNum n) = isnan n"
| "isnan_val _ = False"

text \<open>\<^verbatim>\<open>@stdlib/assert-is-positive-number\<close>\<^verbatim>\<open>.isPrimitive\<close>: a number primitive \<^verbatim>\<open>> 0.0\<close>.\<close>

fun isPositive :: "jsval \<Rightarrow> bool" where
  "isPositive (JNum n) = fgt n (Fin 0)"
| "isPositive _ = False"

text \<open>\<^verbatim>\<open>typeof x === 'boolean'\<close>.\<close>

fun isBoolean :: "jsval \<Rightarrow> bool" where
  "isBoolean (JBool _) = True"
| "isBoolean _ = False"

text \<open>
  The number a number primitive holds. It is applied to the bound parameters only, which
  have passed \<^verbatim>\<open>validate\<close> and so are number primitives.
\<close>

fun num_of :: "jsval \<Rightarrow> num" where
  "num_of (JNum n) = n"
| "num_of _ = NaN"

section \<open>Errors\<close>

text \<open>
  Every \<^verbatim>\<open>throw\<close> of the package, named after the condition it reports and carrying the
  offending value:
  \<^item> \<open>InvalidLocation\<close>: \<^verbatim>\<open>TypeError\<close> "First argument must be a number and not NaN";
  \<^item> \<open>InvalidScale\<close>: \<^verbatim>\<open>TypeError\<close> "Second argument must be a positive number";
  \<^item> \<open>InvalidOptions k\<close>: \<^verbatim>\<open>TypeError\<close> "Options argument must be an object"
    (\<open>k = ''options''\<close>) or "`k` option must be ..." for the option \<open>k\<close>;
  \<^item> \<open>InvalidState\<close>: the underlying generator rejects a state array.
\<close>

datatype error =
    InvalidLocation jsval
  | InvalidScale jsval
  | InvalidOptions string jsval
  | InvalidState jsval

section \<open>\<^verbatim>\<open>lib/validate.js\<close>\<close>

text \<open>Returns an error or \<^verbatim>\<open>null\<close> (\<open>None\<close>).\<close>

definition validate :: "jsval \<Rightarrow> jsval \<Rightarrow> error option" where
  "validate x0 gamma =
     (if \<not> isNumber x0 \<or> isnan_val x0 then Some (InvalidLocation x0)
      else if \<not> isPositive gamma then Some (InvalidScale gamma)
      else None)"

section \<open>The store of typed arrays\<close>

text \<open>
  The contents of a \<^verbatim>\<open>Uint32Array\<close> are a list of 32-bit words; the store maps an address
  to the contents of the array that lives there. \<open>alloc\<close> is \<^verbatim>\<open>new Uint32Array\<close>
  followed by a copy of the contents. Reading an address that holds no array yields
  \<open>None\<close>: such a value is no \<^verbatim>\<open>Uint32Array\<close>.
\<close>

type_synonym buffer = "32 word list"

type_synonym heap = "buffer list"

definition lookup :: "heap \<Rightarrow> addr \<Rightarrow> buffer option" where
  "lookup h a = (if a < length h then Some (h ! a) else None)"

definition deref :: "heap \<Rightarrow> addr \<Rightarrow> buffer" where
  "deref h a = (case lookup h a of None \<Rightarrow> [] | Some b \<Rightarrow> b)"

definition alloc :: "heap \<Rightarrow> buffer \<Rightarrow> addr \<times> heap" where
  "alloc h b = (length h, h @ [b])"

definition store :: "heap \<Rightarrow> addr \<Rightarrow> buffer \<Rightarrow> heap" where
  "store h a b = h[a := b]"

section \<open>The underlying normal generator\<close>

text \<open>
  Modelled from the spec: the standard-normal generator of
  \<^verbatim>\<open>@stdlib/random-base-improved-ziggurat\<close>, which \<^verbatim>\<open>lib/factory.js\<close> requires as
  \<^verbatim>\<open>randn\<close> and whose code is not part of this package. The spec (sections 3, 4.3, 4.4
  and 6) describes it as an opaque capability: a callable that returns one draw and
  advances its state, with the accessors \<^verbatim>\<open>seed\<close>, \<^verbatim>\<open>seedLength\<close>, \<^verbatim>\<open>state\<close>,
  \<^verbatim>\<open>stateLength\<close> and \<^verbatim>\<open>byteLength\<close>. What the spec leaves open is a parameter:
  \<^item> \<open>nxt\<close>: one draw from a state, with the advanced state;
  \<^item> \<open>ext_nxt\<close>: one draw through an externally supplied uniform function, from the
    state of that function's closure, with the advanced closure state;
  \<^item> \<open>verify_state\<close>: whether the contents of an array are a well-formed state;
  \<^item> \<open>seed_state\<close>: the initial state for a seed;
  \<^item> \<open>default_state\<close>: the initial state when neither seed nor state is given
    (the environment's entropy);
  \<^item> \<open>state_seed\<close>: the seed recorded in a state.
\<close>

record source =
  nxt :: "buffer \<Rightarrow> num \<times> buffer"
  ext_nxt :: "buffer \<Rightarrow> num \<times> buffer"
  verify_state :: "buffer \<Rightarrow> bool"
  seed_state :: "buffer \<Rightarrow> buffer"
  default_state :: buffer
  state_seed :: "buffer \<Rightarrow> buffer"

text \<open>
  Modelled from the spec: the generator object that \<^verbatim>\<open>randn( ... )\<close> returns.
  \<open>Internal a c\<close> owns or shares the state array at address \<open>a\<close>, with the \<^verbatim>\<open>copy\<close>
  option \<open>c\<close>; \<open>External f\<close> draws through the caller's uniform function, whose closure
  state lives at \<open>f\<close>.
\<close>

datatype rnorm = Internal addr bool | External addr

text \<open>
  Modelled from the spec: the \<^verbatim>\<open>seed\<close> option, "integer or ordered sequence of
  integers": an integer-valued number, or a non-empty \<^verbatim>\<open>Uint32Array\<close>.
\<close>

fun seed_words :: "heap \<Rightarrow> jsval \<Rightarrow> buffer option" where
  "seed_words h (JNum (Fin r)) =
     (if r = of_int \<lfloor>r\<rfloor> then Some [word_of_int \<lfloor>r\<rfloor>] else None)"
| "seed_words h (JU32 a) =
     (case lookup h a of None \<Rightarrow> None | Some b \<Rightarrow> if b = [] then None else Some b)"
| "seed_words h _ = None"

text \<open>
  Modelled from the spec: construction of the underlying generator (section 4.4). The
  argument is \<open>None\<close> for \<^verbatim>\<open>randn()\<close>. Exactly one initialisation path is taken, with
  precedence \<^verbatim>\<open>prng\<close>, \<^verbatim>\<open>state\<close>, \<^verbatim>\<open>seed\<close>, default; \<^verbatim>\<open>copy\<close> (default
  \<^verbatim>\<open>true\<close>) says whether a supplied state array is copied or referenced; any other key
  is not read.
\<close>

definition randn :: "source \<Rightarrow> jsval option \<Rightarrow> heap \<Rightarrow> error + (rnorm \<times> heap)" where
  "randn S options h =
     (case options of
        None \<Rightarrow> (let (a, h') = alloc h (default_state S) in Inr (Internal a True, h'))
      | Some opts \<Rightarrow>
          if \<not> isObject opts then Inl (InvalidOptions ''options'' opts)
          else if hasOwnProp opts ''copy'' \<and> \<not> isBoolean (get_prop opts ''copy'')
            then Inl (InvalidOptions ''copy'' (get_prop opts ''copy''))
          else
            let c = (if hasOwnProp opts ''copy'' then get_prop opts ''copy'' = JBool True
                     else True)
            in
            if hasOwnProp opts ''prng'' then
              (case get_prop opts ''prng'' of
                 JFun f \<Rightarrow> Inr (External f, h)
               | v \<Rightarrow> Inl (InvalidOptions ''prng'' v))
            else if hasOwnProp opts ''state'' then
              (case get_prop opts ''state'' of
                 JU32 a \<Rightarrow>
                   (case lookup h a of
                      None \<Rightarrow> Inl (InvalidOptions ''state'' (JU32 a))
                    | Some b \<Rightarrow>
                        if \<not> verify_state S b then Inl (InvalidState (JU32 a))
                        else if c then (let (a', h') = alloc h b in Inr (Internal a' c, h'))
                        else Inr (Internal a c, h))
               | v \<Rightarrow> Inl (InvalidOptions ''state'' v))
            else if hasOwnProp opts ''seed'' then
              (case seed_words h (get_prop opts ''seed'') of
                 None \<Rightarrow> Inl (InvalidOptions ''seed'' (get_prop opts ''seed''))
               | Some ws \<Rightarrow>
                   (let (a, h') = alloc h (seed_state S ws) in Inr (Internal a c, h')))
            else (let (a, h') = alloc h (default_state S) in Inr (Internal a c, h')))"

text \<open>Modelled from the spec: one call \<^verbatim>\<open>rnorm()\<close>, which advances the state in place.\<close>

fun rnorm_call :: "source \<Rightarrow> rnorm \<Rightarrow> heap \<Rightarrow> num \<times> heap" where
  "rnorm_call S (Internal a c) h =
     (let (n, b') = nxt S (deref h a) in (n, store h a b'))"
| "rnorm_call S (External f) h =
     (let (n, b') = ext_nxt S (deref h f) in (n, store h f b'))"

text \<open>
  Modelled from the spec: the accessors of \<^verbatim>\<open>rnorm.PRNG\<close>. Reading \<^verbatim>\<open>state\<close> returns
  a copy of the current snapshot, never the live array (section 4.3).
\<close>

fun rand_seed :: "source \<Rightarrow> rnorm \<Rightarrow> heap \<Rightarrow> jsval \<times> heap" where
  "rand_seed S (Internal a c) h =
     (let (a', h') = alloc h (state_seed S (deref h a)) in (JU32 a', h'))"
| "rand_seed S (External f) h = (JNull, h)"

fun rand_seedLength :: "source \<Rightarrow> rnorm \<Rightarrow> heap \<Rightarrow> jsval" where
  "rand_seedLength S (Internal a c) h =
     JNum (Fin (real (length (state_seed S (deref h a)))))"
| "rand_seedLength S (External f) h = JNull"

fun rand_stateLength :: "source \<Rightarrow> rnorm \<Rightarrow> heap \<Rightarrow> jsval" where
  "rand_stateLength S (Internal a c) h = JNum (Fin (real (length (deref h a))))"
| "rand_stateLength S (External f) h = JNull"

fun rand_byteLength :: "source \<Rightarrow> rnorm \<Rightarrow> heap \<Rightarrow> jsval" where
  "rand_byteLength S (Internal a c) h = JNum (Fin (real (4 * length (deref h a))))"
| "rand_byteLength S (External f) h = JNull"

fun rand_get_state :: "source \<Rightarrow> rnorm \<Rightarrow> heap \<Rightarrow> jsval \<times> heap" where
  "rand_get_state S (Internal a c) h =
     (let (a', h') = alloc h (deref h a) in (JU32 a', h'))"
| "rand_get_state S (External f) h = (JNull, h)"

text \<open>
  Modelled from the spec: the assignment \<^verbatim>\<open>rand.state = s\<close> (sections 4.3 and 4.4). A
  value that is not a well-formed state array fails with \<open>InvalidState\<close>. A snapshot as
  long as the current array is copied into it, so every holder of that array sees it. A
  snapshot of another length replaces the array: a generator that copies gets a fresh
  array, a generator that shares is rebound to the array it was given.
\<close>

fun rand_set_state :: "source \<Rightarrow> rnorm \<Rightarrow> jsval \<Rightarrow> heap \<Rightarrow> error + (rnorm \<times> heap)" where
  "rand_set_state S (Internal a c) (JU32 sa) h =
     (case lookup h sa of
        None \<Rightarrow> Inl (InvalidState (JU32 sa))
      | Some b \<Rightarrow>
          if \<not> verify_state S b then Inl (InvalidState (JU32 sa))
          else if length b = length (deref h a) then Inr (Internal a c, store h a b)
          else if c then (let (a', h') = alloc h b in Inr (Internal a' c, h'))
          else Inr (Internal sa c, h))"
| "rand_set_state S (Internal a c) v h = Inl (InvalidState v)"
| "rand_set_state S (External f) v h = Inr (External f, h)"

text \<open>
  \<^verbatim>\<open>@stdlib/array-to-json\<close> on a \<^verbatim>\<open>Uint32Array\<close>: the type name and the elements as
  numbers.
\<close>

definition typedarray2json :: "heap \<Rightarrow> jsval \<Rightarrow> jsval" where
  "typedarray2json h v =
     (case v of
        JU32 a \<Rightarrow>
          JObj [(''type'', JStr ''Uint32Array''),
                (''data'', JArr (map (\<lambda>w. JNum (Fin (real (unat w)))) (deref h a)))]
      | _ \<Rightarrow> JUndefined)"

section \<open>\<^verbatim>\<open>lib/cauchy.js\<close>\<close>

text \<open>
  Modelled from the spec: \<^verbatim>\<open>lib/cauchy.js\<close>, which \<^verbatim>\<open>lib/factory.js\<close> requires as
  \<^verbatim>\<open>cauchy0\<close> and which is missing from the sources at hand. Section 4.2: it draws two
  values \<open>n1\<close>, \<open>n2\<close> from the standard-normal source and computes
  \<^verbatim>\<open>x0 + gamma * (n1 / n2)\<close>.
\<close>

definition cauchy0 :: "source \<Rightarrow> rnorm \<Rightarrow> num \<Rightarrow> num \<Rightarrow> heap \<Rightarrow> num \<times> heap" where
  "cauchy0 S r x0 gamma h =
     (let (n1, h1) = rnorm_call S r h;
          (n2, h2) = rnorm_call S r h1
      in (fadd x0 (fmul gamma (fdiv n1 n2)), h2))"

text \<open>
  The same computation on the contents of a state array, without the store: the value of
  one draw of the distribution and the state the two normal draws leave. It serves to
  state what a generator reads and writes.
\<close>

definition sample :: "source \<Rightarrow> num \<Rightarrow> num \<Rightarrow> buffer \<Rightarrow> num \<times> buffer" where
  "sample S x0 gamma b =
     (let (n1, b1) = nxt S b;
          (n2, b2) = nxt S b1
      in (fadd x0 (fmul gamma (fdiv n1 n2)), b2))"

section \<open>\<^verbatim>\<open>lib/factory.js\<close>\<close>

text \<open>
  What the closure of a constructed generator holds: the parameters \<^verbatim>\<open>x0\<close> and
  \<^verbatim>\<open>gamma\<close> (\<^verbatim>\<open>undefined\<close> when none were bound), the underlying generator
  \<^verbatim>\<open>rnorm\<close>, and which of the two sets of properties was installed (the test
  \<^verbatim>\<open>opts && opts.prng\<close>).
\<close>

record generator =
  c_x0 :: jsval
  c_gamma :: jsval
  c_rnorm :: rnorm
  degraded :: bool

definition NAME :: string where
  "NAME = ''cauchy''"

text \<open>
  The handling of an options argument, written twice in \<^verbatim>\<open>factory\<close> (for one argument
  and for three): the argument must be a plain object, an own \<^verbatim>\<open>prng\<close> property must
  be a function and is then the only option passed on, and otherwise the whole object is
  passed on.
\<close>

definition make_rnorm :: "source \<Rightarrow> jsval \<Rightarrow> heap \<Rightarrow> error + (rnorm \<times> heap)" where
  "make_rnorm S opts h =
     (if \<not> isObject opts then Inl (InvalidOptions ''options'' opts)
      else if hasOwnProp opts ''prng'' then
        (if \<not> isFunction (get_prop opts ''prng'')
         then Inl (InvalidOptions ''prng'' (get_prop opts ''prng''))
         else randn S (Some (JObj [(''prng'', get_prop opts ''prng'')])) h)
      else randn S (Some opts) h)"

text \<open>The second half of \<^verbatim>\<open>factory\<close>: the choice of properties for the generator.\<close>

definition install :: "jsval \<Rightarrow> jsval \<Rightarrow> jsval \<Rightarrow> rnorm \<Rightarrow> generator" where
  "install x0 gamma opts r =
     \<lparr>c_x0 = x0, c_gamma = gamma, c_rnorm = r,
      degraded = (truthy opts \<and> truthy (get_prop opts ''prng''))\<rparr>"

text \<open>\<^verbatim>\<open>factory\<close>, on its \<^verbatim>\<open>arguments\<close>.\<close>

definition factory :: "source \<Rightarrow> jsval list \<Rightarrow> heap \<Rightarrow> error + (generator \<times> heap)" where
  "factory S args h =
     (case args of
        [] \<Rightarrow>
          (case randn S None h of
             Inl e \<Rightarrow> Inl e
           | Inr (r, h') \<Rightarrow> Inr (install JUndefined JUndefined JUndefined r, h'))
      | [opts] \<Rightarrow>
          (case make_rnorm S opts h of
             Inl e \<Rightarrow> Inl e
           | Inr (r, h') \<Rightarrow> Inr (install JUndefined JUndefined opts r, h'))
      | x0 # gamma # rest \<Rightarrow>
          (case validate x0 gamma of
             Some err \<Rightarrow> Inl err
           | None \<Rightarrow>
               (case rest of
                  [] \<Rightarrow>
                    (case randn S None h of
                       Inl e \<Rightarrow> Inl e
                     | Inr (r, h') \<Rightarrow> Inr (install x0 gamma JUndefined r, h'))
                | opts # _ \<Rightarrow>
                    (case make_rnorm S opts h of
                       Inl e \<Rightarrow> Inl e
                     | Inr (r, h') \<Rightarrow> Inr (install x0 gamma opts r, h')))))"

text \<open>The accessors. In the degraded mode each is the constant \<^verbatim>\<open>null\<close>.\<close>

definition getSeed :: "source \<Rightarrow> generator \<Rightarrow> heap \<Rightarrow> jsval \<times> heap" where
  "getSeed S g h = (if degraded g then (JNull, h) else rand_seed S (c_rnorm g) h)"

definition getSeedLength :: "source \<Rightarrow> generator \<Rightarrow> heap \<Rightarrow> jsval" where
  "getSeedLength S g h = (if degraded g then JNull else rand_seedLength S (c_rnorm g) h)"

definition getStateLength :: "source \<Rightarrow> generator \<Rightarrow> heap \<Rightarrow> jsval" where
  "getStateLength S g h = (if degraded g then JNull else rand_stateLength S (c_rnorm g) h)"

definition getStateSize :: "source \<Rightarrow> generator \<Rightarrow> heap \<Rightarrow> jsval" where
  "getStateSize S g h = (if degraded g then JNull else rand_byteLength S (c_rnorm g) h)"

definition getState :: "source \<Rightarrow> generator \<Rightarrow> heap \<Rightarrow> jsval \<times> heap" where
  "getState S g h = (if degraded g then (JNull, h) else rand_get_state S (c_rnorm g) h)"

text \<open>
  \<^verbatim>\<open>setState\<close>; in the degraded mode the setter is \<^verbatim>\<open>noop\<close>. The assignment may
  rebind the underlying generator's array, so the generator is returned with the store.
\<close>

definition setState :: "source \<Rightarrow> generator \<Rightarrow> jsval \<Rightarrow> heap \<Rightarrow> error + (generator \<times> heap)" where
  "setState S g s h =
     (if degraded g then Inr (g, h)
      else (case rand_set_state S (c_rnorm g) s h of
              Inl e \<Rightarrow> Inl e
            | Inr (r, h') \<Rightarrow> Inr (g\<lparr>c_rnorm := r\<rparr>, h')))"

definition toJSON :: "source \<Rightarrow> generator \<Rightarrow> heap \<Rightarrow> jsval \<times> heap" where
  "toJSON S g h =
     (if degraded g then (JNull, h)
      else
        (let (s, h') = rand_get_state S (c_rnorm g) h
         in (JObj [(''type'', JStr ''PRNG''),
                   (''name'', JStr NAME),
                   (''state'', typedarray2json h' s),
                   (''params'', JArr (if c_x0 g = JUndefined then []
                                      else [c_x0 g, c_gamma g]))],
             h')))"

text \<open>\<^verbatim>\<open>cauchy1\<close>: the bound parameters.\<close>

definition cauchy1 :: "source \<Rightarrow> generator \<Rightarrow> heap \<Rightarrow> num \<times> heap" where
  "cauchy1 S g h = cauchy0 S (c_rnorm g) (num_of (c_x0 g)) (num_of (c_gamma g)) h"

text \<open>\<^verbatim>\<open>cauchy2\<close>: the parameters of the call, which are numbers.\<close>

definition cauchy2 :: "source \<Rightarrow> generator \<Rightarrow> num \<Rightarrow> num \<Rightarrow> heap \<Rightarrow> num \<times> heap" where
  "cauchy2 S g x0 gamma h =
     (if isnan x0 \<or> isnan gamma \<or> fle gamma (Fin 0) then (NaN, h)
      else cauchy0 S (c_rnorm g) x0 gamma h)"

text \<open>
  The function \<^verbatim>\<open>factory\<close> returns: \<^verbatim>\<open>cauchy2\<close> when \<^verbatim>\<open>x0 === void 0\<close>, else
  \<^verbatim>\<open>cauchy1\<close>, which ignores the arguments of the call.
\<close>

definition prng :: "source \<Rightarrow> generator \<Rightarrow> num \<Rightarrow> num \<Rightarrow> heap \<Rightarrow> num \<times> heap" where
  "prng S g x0 gamma h =
     (if c_x0 g = JUndefined then cauchy2 S g x0 gamma h else cauchy1 S g h)"

text \<open>
  A run of calls of one generator, as the tests and examples of the package make them:
  one pair of arguments for each call, the results in order.
\<close>

fun calls :: "source \<Rightarrow> generator \<Rightarrow> (num \<times> num) list \<Rightarrow> heap \<Rightarrow> num list \<times> heap" where
  "calls S g [] h = ([], h)"
| "calls S g ((x0, gamma) # ps) h =
     (let (v, h1) = prng S g x0 gamma h;
          (vs, h2) = calls S g ps h1
      in (v # vs, h2))"

text \<open>
  The options argument of a call of \<^verbatim>\<open>factory\<close>: \<^verbatim>\<open>arguments[0]\<close> when there is one
  argument, \<^verbatim>\<open>arguments[2]\<close> when there are more than two. A generator is built over an
  external source when that argument has an own \<^verbatim>\<open>prng\<close> property.
\<close>

definition options_arg :: "jsval list \<Rightarrow> jsval option" where
  "options_arg args =
     (case args of
        [opts] \<Rightarrow> Some opts
      | _ # _ # opts # _ \<Rightarrow> Some opts
      | _ \<Rightarrow> None)"

definition external_prng :: "jsval list \<Rightarrow> bool" where
  "external_prng args =
     (case options_arg args of None \<Rightarrow> False | Some opts \<Rightarrow> hasOwnProp opts ''prng'')"

text \<open>The option keys that section 4.4 of the spec recognises.\<close>

definition recognized :: "string set" where
  "recognized = {''prng'', ''seed'', ''state'', ''copy''}"

text \<open>
  An options object that asks for the state array at \<open>a\<close> to be shared: no \<^verbatim>\<open>prng\<close>,
  \<^verbatim>\<open>state\<close> the array at \<open>a\<close>, \<^verbatim>\<open>copy: false\<close>.
\<close>

definition shares_state :: "jsval \<Rightarrow> addr \<Rightarrow> bool" where
  "shares_state opts a =
     (\<not> hasOwnProp opts ''prng'' \<and> get_prop opts ''state'' = JU32 a \<and>
      get_prop opts ''copy'' = JBool False)"

text \<open>
  The parameters a call hands to \<^verbatim>\<open>cauchy0\<close>: those of the call for \<^verbatim>\<open>cauchy2\<close>, the
  bound ones for \<^verbatim>\<open>cauchy1\<close>. A call reaches \<^verbatim>\<open>cauchy0\<close>, and so draws, when the
  generator is bound or the guard of \<^verbatim>\<open>cauchy2\<close> is false. \<open>draw_from\<close> is what such a
  call computes from the contents of the state array: its value and the advanced state.
\<close>

definition call_params :: "generator \<Rightarrow> num \<Rightarrow> num \<Rightarrow> num \<times> num" where
  "call_params g x0 gamma =
     (if c_x0 g = JUndefined then (x0, gamma) else (num_of (c_x0 g), num_of (c_gamma g)))"

definition call_draws :: "generator \<Rightarrow> num \<Rightarrow> num \<Rightarrow> bool" where
  "call_draws g x0 gamma =
     (c_x0 g \<noteq> JUndefined \<or> \<not> (isnan x0 \<or> isnan gamma \<or> fle gamma (Fin 0)))"

definition draw_from :: "source \<Rightarrow> generator \<Rightarrow> num \<Rightarrow> num \<Rightarrow> buffer \<Rightarrow> num \<times> buffer" where
  "draw_from S g x0 gamma b = (case call_params g x0 gamma of (p, q) \<Rightarrow> sample S p q b)"

section \<open>Sources for the examples\<close>

text \<open>
  A small generator to run the model on: the draw is the sum of the state words, each
  word then moves on by one; a state is well formed when it is not empty.
\<close>

definition demo_source :: source where
  "demo_source =
     \<lparr>nxt = (\<lambda>b. (Fin (real (unat (sum_list b))), map (\<lambda>w. w + 1) b)),
      ext_nxt = (\<lambda>b. (Fin 1, b)),
      verify_state = (\<lambda>b. b \<noteq> []),
      seed_state = (\<lambda>ws. ws @ ws),
      default_state = [5, 7],
      state_seed = (\<lambda>b. take 1 b)\<rparr>"

section \<open>Facts about the store and about construction\<close>

lemma deref_store: "deref (store h a b) a' = (if a' = a \<and> a < length h then b else deref h a')"
  by (auto simp: deref_def lookup_def store_def)

lemma length_store: "length (store h a b) = length h"
  by (simp add: store_def)

lemma deref_append_old: "a < length h \<Longrightarrow> deref (h @ [b]) a = deref h a"
  by (simp add: deref_def lookup_def nth_append)

lemma deref_append_new: "deref (h @ [b]) (length h) = b"
  by (simp add: deref_def lookup_def)

lemma deref_lookup: "a < length h \<Longrightarrow> lookup h a = Some (deref h a)"
  by (simp add: deref_def lookup_def)

lemma randn_shape:
  assumes "randn S options h = Inr (r, h')"
  shows "(\<exists>f. r = External f \<and> h' = h \<and> (\<exists>opts. options = Some opts \<and> get_prop opts ''prng'' = JFun f \<and> hasOwnProp opts ''prng''))
       \<or> (\<exists>a c. r = Internal a c \<and> a < length h' \<and> length h \<le> length h' \<and> (\<forall>opts. options = Some opts \<longrightarrow> \<not> hasOwnProp opts ''prng''))"
  using assms
  by (auto simp: randn_def alloc_def lookup_def Let_def
      split: option.splits if_splits jsval.splits)

lemma make_rnorm_shape:
  assumes "make_rnorm S opts h = Inr (r, h')"
  shows "isObject opts \<and>
     ((\<exists>f. r = External f \<and> h' = h \<and> get_prop opts ''prng'' = JFun f \<and> hasOwnProp opts ''prng'')
       \<or> (\<exists>a c. r = Internal a c \<and> a < length h' \<and> length h \<le> length h' \<and> \<not> hasOwnProp opts ''prng''))"
proof -
  from assms have obj: "isObject opts"
    by (auto simp: make_rnorm_def split: if_splits)
  show ?thesis
  proof (cases "hasOwnProp opts ''prng''")
    case True
    with assms obj have r: "randn S (Some (JObj [(''prng'', get_prop opts ''prng'')])) h = Inr (r, h')"
      by (auto simp: make_rnorm_def split: if_splits)
    from randn_shape [OF r] True obj show ?thesis by auto
  next
    case False
    with assms obj have r: "randn S (Some opts) h = Inr (r, h')"
      by (auto simp: make_rnorm_def split: if_splits)
    from randn_shape [OF r] False obj show ?thesis by auto
  qed
qed

lemma isPositive_iff: "isPositive v \<longleftrightarrow> (v = JNum PInf \<or> (\<exists>r. 0 < r \<and> v = JNum (Fin r)))"
proof (cases v)
  case (JNum n)
  then show ?thesis by (cases n) auto
qed auto

lemma valid_x0_iff: "(isNumber v \<and> \<not> isnan_val v) \<longleftrightarrow> (\<exists>a. v = JNum a \<and> a \<noteq> NaN)"
proof (cases v)
  case (JNum n)
  then show ?thesis by (cases n) auto
qed auto

lemma validate_spec:
  "(validate x0 gamma = Some (InvalidLocation x0)) = (\<not> (\<exists>a. x0 = JNum a \<and> a \<noteq> NaN))"
  "(validate x0 gamma = Some (InvalidScale gamma)) =
     ((\<exists>a. x0 = JNum a \<and> a \<noteq> NaN) \<and>
      \<not> (gamma = JNum PInf \<or> (\<exists>r. 0 < r \<and> gamma = JNum (Fin r))))"
  "(validate x0 gamma = None) =
     ((\<exists>a. x0 = JNum a \<and> a \<noteq> NaN) \<and>
      (gamma = JNum PInf \<or> (\<exists>r. 0 < r \<and> gamma = JNum (Fin r))))"
  using valid_x0_iff [of x0] isPositive_iff [of gamma]
  by (auto simp: validate_def)

lemma factory_shape:
  assumes "factory S args h = Inr (g, h')"
  shows "(degraded g \<longleftrightarrow> external_prng args)
       \<and> (degraded g \<longrightarrow> (\<exists>f. c_rnorm g = External f) \<and> h' = h)
       \<and> (\<not> degraded g \<longrightarrow> (\<exists>a c. c_rnorm g = Internal a c \<and> a < length h'))
       \<and> length h \<le> length h'
       \<and> (length args < 2 \<longrightarrow> c_x0 g = JUndefined \<and> c_gamma g = JUndefined)
       \<and> (2 \<le> length args \<longrightarrow> c_x0 g = args ! 0 \<and> c_gamma g = args ! 1 \<and> validate (args ! 0) (args ! 1) = None)"
proof -
  consider (zero) "args = []" | (one) opts where "args = [opts]"
    | (two) x0 gamma where "args = [x0, gamma]"
    | (three) x0 gamma opts rest where "args = x0 # gamma # opts # rest"
    by (cases args rule: list.exhaust; simp) (metis list.exhaust)
  then show ?thesis
  proof cases
    case zero
    with assms obtain r where r: "randn S None h = Inr (r, h')" and g: "g = install JUndefined JUndefined JUndefined r"
      by (auto simp: factory_def split: sum.splits)
    from randn_shape [OF r] g zero show ?thesis
      by (auto simp: install_def external_prng_def options_arg_def)
  next
    case one
    with assms obtain r where r: "make_rnorm S opts h = Inr (r, h')" and g: "g = install JUndefined JUndefined opts r"
      by (auto simp: factory_def split: sum.splits)
    from make_rnorm_shape [OF r] g one show ?thesis
      by (cases opts) (auto simp: install_def external_prng_def options_arg_def)
  next
    case two
    with assms obtain r where r: "randn S None h = Inr (r, h')" and g: "g = install x0 gamma JUndefined r"
       and v: "validate x0 gamma = None"
      by (auto simp: factory_def split: sum.splits option.splits)
    from randn_shape [OF r] g two v show ?thesis
      by (auto simp: install_def external_prng_def options_arg_def)
  next
    case three
    with assms obtain r where r: "make_rnorm S opts h = Inr (r, h')" and g: "g = install x0 gamma opts r"
       and v: "validate x0 gamma = None"
      by (auto simp: factory_def split: sum.splits option.splits)
    from make_rnorm_shape [OF r] g three v show ?thesis
      by (cases opts) (auto simp: install_def external_prng_def options_arg_def)
  qed
qed

section \<open>The validator\<close>

text \<open>
  C4, as the code has it. \<^verbatim>\<open>validate\<close> returns the location error exactly when \<open>x0\<close> is
  not a number primitive or is NaN; an infinite \<open>x0\<close> passes. When \<open>x0\<close> passes, it
  returns the scale error exactly when \<open>gamma\<close> is not a number primitive greater than
  zero (zero, a negative number, NaN and every non-number fail; \<^verbatim>\<open>+Infinity\<close> passes).
  It returns no error exactly when both pass, so for every finite \<open>x0\<close> and strictly
  positive \<open>gamma\<close>. It is a pure function of its two arguments. The form of
  \<^verbatim>\<open>factory\<close> that binds the parameters throws the error \<^verbatim>\<open>validate\<close> returns.
\<close>

theorem validate_domain:
  "((validate x0 gamma = Some (InvalidLocation x0)) = (\<not> (\<exists>a. x0 = JNum a \<and> a \<noteq> NaN)))
   \<and> ((validate x0 gamma = Some (InvalidScale gamma)) =
        ((\<exists>a. x0 = JNum a \<and> a \<noteq> NaN) \<and>
         \<not> (gamma = JNum PInf \<or> (\<exists>r. 0 < r \<and> gamma = JNum (Fin r)))))
   \<and> ((validate x0 gamma = None) =
        ((\<exists>a. x0 = JNum a \<and> a \<noteq> NaN) \<and>
         (gamma = JNum PInf \<or> (\<exists>r. 0 < r \<and> gamma = JNum (Fin r)))))
   \<and> (\<forall>e. validate x0 gamma = Some e \<longrightarrow> factory S (x0 # gamma # rest) h = Inl e)"
proof -
  have "\<forall>e. validate x0 gamma = Some e \<longrightarrow> factory S (x0 # gamma # rest) h = Inl e"
    by (simp add: factory_def)
  then show ?thesis
    using validate_spec [of x0 gamma] by simp
qed

text \<open>The cases of C4 on concrete arguments.\<close>

theorem validate_domain_witness:
  "validate (JNum (Fin 0)) (JNum (Fin 1)) = None
   \<and> validate (JNum NaN) (JNum (Fin 1)) = Some (InvalidLocation (JNum NaN))
   \<and> validate (JStr ''1'') (JNum (Fin 1)) = Some (InvalidLocation (JStr ''1''))
   \<and> validate (JNum (Fin 0)) (JNum (Fin 0)) = Some (InvalidScale (JNum (Fin 0)))
   \<and> validate (JNum (Fin 0)) (JNum (Fin (- 1))) = Some (InvalidScale (JNum (Fin (- 1))))
   \<and> factory demo_source [JNum (Fin 0), JNum (Fin (- 1))] [] = Inl (InvalidScale (JNum (Fin (- 1))))"
  using validate_domain [of "JNum (Fin 0)" "JNum (Fin 1)" demo_source "[]" "[]"]
    validate_domain [of "JNum NaN" "JNum (Fin 1)" demo_source "[]" "[]"]
    validate_domain [of "JStr ''1''" "JNum (Fin 1)" demo_source "[]" "[]"]
    validate_domain [of "JNum (Fin 0)" "JNum (Fin 0)" demo_source "[]" "[]"]
    validate_domain [of "JNum (Fin 0)" "JNum (Fin (- 1))" demo_source "[]" "[]"]
  by simp

text \<open>
  C4 as the spec words it fails: \<^verbatim>\<open>Infinity\<close> is not a finite real number, and
  \<^verbatim>\<open>validate( Infinity, 1.0 )\<close> returns \<^verbatim>\<open>null\<close>.
\<close>

theorem validate_infinite_location_counterexample:
  "\<not> is_finite PInf \<and> validate (JNum PInf) (JNum (Fin 1)) = None"
  by (simp add: validate_def)

section \<open>The transform\<close>

lemma cauchy0_unfold:
  assumes "rnorm_call S r h = (n1, h')" and "rnorm_call S r h' = (n2, h'')"
  shows "cauchy0 S r x0 gamma h = (fadd x0 (fmul gamma (fdiv n1 n2)), h'')"
  using assms by (simp add: cauchy0_def)

text \<open>
  C2. Let \<open>g\<close> be a generator that \<^verbatim>\<open>factory\<close> returned, and let \<open>n1\<close> and then
  \<open>n2\<close> be what two calls in a row of the underlying normal generator return from the
  current store. A call of an unbound generator with valid parameters (neither is NaN and
  \<open>gamma\<close> is not \<^verbatim>\<open><= 0\<close>) returns \<^verbatim>\<open>x0 + gamma * (n1 / n2)\<close>; a call of a bound
  generator returns the same with the parameters bound at construction, whatever the
  arguments of the call. In both forms the store after the call is the store after exactly
  those two draws.
\<close>

theorem invocation_draws_two:
  assumes "factory S args h0 = Inr (g, h1)"
    and "rnorm_call S (c_rnorm g) h = (n1, h')"
    and "rnorm_call S (c_rnorm g) h' = (n2, h'')"
  shows "(length args < 2 \<longrightarrow> \<not> isnan x0 \<and> \<not> isnan gamma \<and> \<not> fle gamma (Fin 0) \<longrightarrow>
            prng S g x0 gamma h = (fadd x0 (fmul gamma (fdiv n1 n2)), h''))
       \<and> (2 \<le> length args \<longrightarrow>
            (\<exists>p q. args ! 0 = JNum p \<and> args ! 1 = JNum q \<and>
                   prng S g x0 gamma h = (fadd p (fmul q (fdiv n1 n2)), h'')))"
proof (intro conjI impI)
  assume "length args < 2" and ok: "\<not> isnan x0 \<and> \<not> isnan gamma \<and> \<not> fle gamma (Fin 0)"
  with factory_shape [OF assms(1)] have "c_x0 g = JUndefined" by simp
  with ok cauchy0_unfold [OF assms(2,3)]
  show "prng S g x0 gamma h = (fadd x0 (fmul gamma (fdiv n1 n2)), h'')"
    by (simp add: prng_def cauchy2_def)
next
  assume "2 \<le> length args"
  with factory_shape [OF assms(1)]
  have x: "c_x0 g = args ! 0" and y: "c_gamma g = args ! 1"
    and v: "validate (args ! 0) (args ! 1) = None" by simp_all
  from v validate_spec(3) [of "args ! 0" "args ! 1"]
  obtain p q where p: "args ! 0 = JNum p" and q: "args ! 1 = JNum q" by auto
  with x y cauchy0_unfold [OF assms(2,3)]
  have "prng S g x0 gamma h = (fadd p (fmul q (fdiv n1 n2)), h'')"
    by (simp add: prng_def cauchy1_def)
  with p q
  show "\<exists>p q. args ! 0 = JNum p \<and> args ! 1 = JNum q \<and>
              prng S g x0 gamma h = (fadd p (fmul q (fdiv n1 n2)), h'')"
    by blast
qed

lemma demo_factory_bound:
  "factory demo_source [JNum (Fin 2), JNum (Fin 3)] [] =
     Inr (install (JNum (Fin 2)) (JNum (Fin 3)) JUndefined (Internal 0 True), [[5, 7]])"
  by (simp add: factory_def validate_def randn_def alloc_def demo_source_def)

lemma demo_factory_unbound:
  "factory demo_source [] [] =
     Inr (install JUndefined JUndefined JUndefined (Internal 0 True), [[5, 7]])"
  by (simp add: factory_def randn_def alloc_def demo_source_def)

lemma demo_call_1: "rnorm_call demo_source (Internal 0 True) [[5, 7]] = (Fin 12, [[6, 8]])"
  by (simp add: demo_source_def deref_def lookup_def store_def)

lemma demo_call_2: "rnorm_call demo_source (Internal 0 True) [[6, 8]] = (Fin 14, [[7, 9]])"
  by (simp add: demo_source_def deref_def lookup_def store_def)

text \<open>
  C2 on the example source: from the state \<open>[5, 7]\<close> the two draws are 12 and 14, and
  both forms return \<open>2 + 3 * (12 / 14)\<close>.
\<close>

theorem invocation_draws_two_witness:
  "factory demo_source [JNum (Fin 2), JNum (Fin 3)] [] =
     Inr (install (JNum (Fin 2)) (JNum (Fin 3)) JUndefined (Internal 0 True), [[5, 7]])
   \<and> factory demo_source [] [] =
     Inr (install JUndefined JUndefined JUndefined (Internal 0 True), [[5, 7]])
   \<and> prng demo_source (install (JNum (Fin 2)) (JNum (Fin 3)) JUndefined (Internal 0 True))
      NaN NaN [[5, 7]] = (Fin (32 / 7), [[7, 9]])
   \<and> prng demo_source (install JUndefined JUndefined JUndefined (Internal 0 True))
      (Fin 2) (Fin 3) [[5, 7]] = (Fin (32 / 7), [[7, 9]])"
proof -
  have r1: "rnorm_call demo_source
      (c_rnorm (install (JNum (Fin 2)) (JNum (Fin 3)) JUndefined (Internal 0 True))) [[5, 7]]
      = (Fin 12, [[6, 8]])"
    by (simp add: install_def demo_call_1 del: rnorm_call.simps)
  have r2: "rnorm_call demo_source
      (c_rnorm (install (JNum (Fin 2)) (JNum (Fin 3)) JUndefined (Internal 0 True))) [[6, 8]]
      = (Fin 14, [[7, 9]])"
    by (simp add: install_def demo_call_2 del: rnorm_call.simps)
  have u1: "rnorm_call demo_source
      (c_rnorm (install JUndefined JUndefined JUndefined (Internal 0 True))) [[5, 7]]
      = (Fin 12, [[6, 8]])"
    by (simp add: install_def demo_call_1 del: rnorm_call.simps)
  have u2: "rnorm_call demo_source
      (c_rnorm (install JUndefined JUndefined JUndefined (Internal 0 True))) [[6, 8]]
      = (Fin 14, [[7, 9]])"
    by (simp add: install_def demo_call_2 del: rnorm_call.simps)
  show ?thesis
    using invocation_draws_two [OF demo_factory_bound r1 r2, of NaN NaN]
      invocation_draws_two [OF demo_factory_unbound u1 u2, of "Fin 2" "Fin 3"]
      demo_factory_bound demo_factory_unbound
    by simp
qed

lemma fgt_zero_valid: "fgt gamma (Fin 0) \<Longrightarrow> \<not> isnan gamma \<and> \<not> fle gamma (Fin 0)"
  by (cases gamma) auto

lemma calls_append:
  "calls S g (ps @ qs) h =
     (fst (calls S g ps h) @ fst (calls S g qs (snd (calls S g ps h))),
      snd (calls S g qs (snd (calls S g ps h))))"
proof (induction ps arbitrary: h)
  case Nil
  show ?case by simp
next
  case (Cons p ps)
  obtain x y where p: "p = (x, y)" by (cases p)
  show ?case
    by (simp add: p Cons.IH split_beta)
qed

lemma length_calls: "length (fst (calls S g ps h)) = length ps"
proof (induction ps arbitrary: h)
  case Nil
  show ?case by simp
next
  case (Cons p ps)
  obtain x y where p: "p = (x, y)" by (cases p)
  show ?case by (simp add: p Cons.IH split_beta)
qed

text \<open>
  C10. A call of an unbound generator with invalid parameters (\<open>x0\<close> NaN, \<open>gamma\<close> NaN
  or \<^verbatim>\<open>gamma <= 0\<close>) returns NaN and leaves the store as it was: nothing is drawn. So in
  any run of calls, a run with such a call in it returns what the run without it returns,
  with NaN at the place of the invalid call, and ends in the same store.
\<close>

theorem invalid_call_leaves_state:
  assumes "factory S args h0 = Inr (g, h1)" and "length args < 2"
    and "isnan x0 \<or> isnan gamma \<or> fle gamma (Fin 0)"
  shows "prng S g x0 gamma h = (NaN, h)
       \<and> calls S g (pre @ (x0, gamma) # post) h =
           (take (length pre) (fst (calls S g (pre @ post) h)) @ NaN #
              drop (length pre) (fst (calls S g (pre @ post) h)),
            snd (calls S g (pre @ post) h))"
proof -
  from factory_shape [OF assms(1)] assms(2) have u: "c_x0 g = JUndefined" by simp
  with assms(3) have nan: "\<And>k. prng S g x0 gamma k = (NaN, k)"
    by (simp add: prng_def cauchy2_def)
  have one: "\<And>k. calls S g ((x0, gamma) # post) k =
      (NaN # fst (calls S g post k), snd (calls S g post k))"
    by (simp add: nan split_beta)
  show ?thesis
    by (simp add: nan calls_append [of S g pre] one length_calls split_beta
        del: calls.simps)
qed

text \<open>
  C10 on the example source: an invalid call before a valid one does not change what the
  valid one returns.
\<close>

theorem invalid_call_leaves_state_witness:
  "factory demo_source [] [] =
     Inr (install JUndefined JUndefined JUndefined (Internal 0 True), [[5, 7]])
   \<and> prng demo_source (install JUndefined JUndefined JUndefined (Internal 0 True))
        (Fin 2) (Fin 0) [[5, 7]] = (NaN, [[5, 7]])
   \<and> fst (calls demo_source (install JUndefined JUndefined JUndefined (Internal 0 True))
        [(Fin 2, Fin 0), (Fin 2, Fin 3)] [[5, 7]]) = [NaN, Fin (32 / 7)]
   \<and> fst (calls demo_source (install JUndefined JUndefined JUndefined (Internal 0 True))
        [(Fin 2, Fin 3)] [[5, 7]]) = [Fin (32 / 7)]"
proof -
  have len: "length ([] :: jsval list) < 2" by simp
  have bad: "isnan (Fin 2) \<or> isnan (Fin 0) \<or> fle (Fin 0) (Fin 0)" by simp
  have v: "calls demo_source (install JUndefined JUndefined JUndefined (Internal 0 True))
        [(Fin 2, Fin 3)] [[5, 7]] = ([Fin (32 / 7)], [[7, 9]])"
    by (simp add: install_def prng_def cauchy2_def cauchy0_def demo_source_def
        deref_def lookup_def store_def)
  show ?thesis
    using invalid_call_leaves_state [OF demo_factory_unbound len bad, of "[[5, 7]]" "[]" "[(Fin 2, Fin 3)]"]
      demo_factory_unbound v
    by simp
qed

section \<open>The accessors and the serialised form\<close>

text \<open>
  C5. For a generator built with an own \<^verbatim>\<open>prng\<close> option, \<^verbatim>\<open>seed\<close>,
  \<^verbatim>\<open>seedLength\<close>, \<^verbatim>\<open>state\<close>, \<^verbatim>\<open>stateLength\<close> and \<^verbatim>\<open>byteLength\<close> read as
  \<^verbatim>\<open>null\<close>, an assignment to \<^verbatim>\<open>state\<close> changes neither the generator nor the store,
  and \<^verbatim>\<open>toJSON\<close> returns \<^verbatim>\<open>null\<close>. For a generator built without one, the underlying
  generator owns a state array, the five properties read what the underlying generator's
  properties of the same names read, an assignment to \<^verbatim>\<open>state\<close> is the assignment to the
  underlying generator's \<^verbatim>\<open>state\<close>, and \<^verbatim>\<open>toJSON\<close> returns an object.
\<close>

theorem degraded_mode:
  assumes "factory S args h0 = Inr (g, h1)"
  shows "(external_prng args \<longrightarrow>
            getSeed S g h = (JNull, h) \<and> getSeedLength S g h = JNull \<and>
            getState S g h = (JNull, h) \<and> getStateLength S g h = JNull \<and>
            getStateSize S g h = JNull \<and> setState S g s h = Inr (g, h) \<and>
            toJSON S g h = (JNull, h))
       \<and> (\<not> external_prng args \<longrightarrow>
            (\<exists>a c. c_rnorm g = Internal a c \<and> a < length h1) \<and>
            getSeed S g h = rand_seed S (c_rnorm g) h \<and>
            getSeedLength S g h = rand_seedLength S (c_rnorm g) h \<and>
            getState S g h = rand_get_state S (c_rnorm g) h \<and>
            getStateLength S g h = rand_stateLength S (c_rnorm g) h \<and>
            getStateSize S g h = rand_byteLength S (c_rnorm g) h \<and>
            setState S g s h =
              (case rand_set_state S (c_rnorm g) s h of
                 Inl e \<Rightarrow> Inl e
               | Inr (r, h') \<Rightarrow> Inr (g\<lparr>c_rnorm := r\<rparr>, h')) \<and>
            fst (toJSON S g h) \<noteq> JNull)"
proof (cases "external_prng args")
  case True
  with factory_shape [OF assms] have "degraded g" by simp
  with True show ?thesis
    by (simp add: getSeed_def getSeedLength_def getState_def getStateLength_def
        getStateSize_def setState_def toJSON_def)
next
  case False
  with factory_shape [OF assms] have d: "\<not> degraded g"
    and i: "\<exists>a c. c_rnorm g = Internal a c \<and> a < length h1" by simp_all
  from d have "fst (toJSON S g h) \<noteq> JNull"
    by (simp add: toJSON_def split_beta)
  with False d i show ?thesis
    by (simp add: getSeed_def getSeedLength_def getState_def getStateLength_def
        getStateSize_def setState_def)
qed

lemma demo_factory_external:
  "factory demo_source [JObj [(''prng'', JFun 0)]] [[1]] =
     Inr (install JUndefined JUndefined (JObj [(''prng'', JFun 0)]) (External 0), [[1]])"
  by (simp add: factory_def make_rnorm_def randn_def)

text \<open>
  C5 on the example source, for a generator over an external function and for one over
  its own state.
\<close>

theorem degraded_mode_witness:
  "external_prng [JObj [(''prng'', JFun 0)]]
   \<and> factory demo_source [JObj [(''prng'', JFun 0)]] [[1]] =
       Inr (install JUndefined JUndefined (JObj [(''prng'', JFun 0)]) (External 0), [[1]])
   \<and> getState demo_source
       (install JUndefined JUndefined (JObj [(''prng'', JFun 0)]) (External 0)) [[1]]
       = (JNull, [[1]])
   \<and> toJSON demo_source
       (install JUndefined JUndefined (JObj [(''prng'', JFun 0)]) (External 0)) [[1]]
       = (JNull, [[1]])
   \<and> setState demo_source
       (install JUndefined JUndefined (JObj [(''prng'', JFun 0)]) (External 0)) (JU32 0) [[1]]
       = Inr (install JUndefined JUndefined (JObj [(''prng'', JFun 0)]) (External 0), [[1]])
   \<and> \<not> external_prng []
   \<and> getState demo_source (install JUndefined JUndefined JUndefined (Internal 0 True)) [[5, 7]]
       = (JU32 1, [[5, 7], [5, 7]])
   \<and> getStateLength demo_source
       (install JUndefined JUndefined JUndefined (Internal 0 True)) [[5, 7]] = JNum (Fin 2)
   \<and> getStateSize demo_source
       (install JUndefined JUndefined JUndefined (Internal 0 True)) [[5, 7]] = JNum (Fin 8)"
proof -
  have e: "external_prng [JObj [(''prng'', JFun 0)]]"
    by (simp add: external_prng_def options_arg_def)
  have n: "\<not> external_prng []"
    by (simp add: external_prng_def options_arg_def)
  show ?thesis
    using degraded_mode [OF demo_factory_external, of "[[1]]" "JU32 0"]
      degraded_mode [OF demo_factory_unbound, of "[[5, 7]]" "JU32 0"]
      e n demo_factory_external
    by (simp add: install_def alloc_def deref_def lookup_def)
qed

text \<open>
  C8. For a generator built without an external \<^verbatim>\<open>prng\<close>, \<^verbatim>\<open>toJSON\<close> returns an
  object with \<^verbatim>\<open>type\<close> "PRNG", \<^verbatim>\<open>name\<close> "cauchy", \<^verbatim>\<open>state\<close> the JSON form of the
  contents of the state array at the moment of the call, and \<^verbatim>\<open>params\<close> the empty array
  when no parameters were bound and \<^verbatim>\<open>[x0, gamma]\<close> when they were.
\<close>

theorem toJSON_shape:
  assumes "factory S args h0 = Inr (g, h1)" and "\<not> external_prng args"
  shows "\<exists>a c. c_rnorm g = Internal a c \<and>
           toJSON S g h =
             (JObj [(''type'', JStr ''PRNG''),
                    (''name'', JStr ''cauchy''),
                    (''state'',
                       JObj [(''type'', JStr ''Uint32Array''),
                             (''data'', JArr (map (\<lambda>w. JNum (Fin (real (unat w)))) (deref h a)))]),
                    (''params'', JArr (if length args < 2 then [] else [args ! 0, args ! 1]))],
              h @ [deref h a])"
proof -
  from factory_shape [OF assms(1)] assms(2)
  obtain a c where d: "\<not> degraded g" and r: "c_rnorm g = Internal a c" by auto
  have p: "(if c_x0 g = JUndefined then [] else [c_x0 g, c_gamma g]) =
           (if length args < 2 then [] else [args ! 0, args ! 1])"
  proof (cases "length args < 2")
    case True
    with factory_shape [OF assms(1)] show ?thesis by simp
  next
    case False
    with factory_shape [OF assms(1)]
    have x: "c_x0 g = args ! 0" "c_gamma g = args ! 1" "validate (args ! 0) (args ! 1) = None"
      by simp_all
    from x(3) validate_spec(3) [of "args ! 0" "args ! 1"] have "args ! 0 \<noteq> JUndefined" by auto
    with x False show ?thesis by simp
  qed
  from d r p have "toJSON S g h =
             (JObj [(''type'', JStr ''PRNG''),
                    (''name'', JStr ''cauchy''),
                    (''state'',
                       JObj [(''type'', JStr ''Uint32Array''),
                             (''data'', JArr (map (\<lambda>w. JNum (Fin (real (unat w)))) (deref h a)))]),
                    (''params'', JArr (if length args < 2 then [] else [args ! 0, args ! 1]))],
              h @ [deref h a])"
    by (simp add: toJSON_def alloc_def typedarray2json_def NAME_def deref_append_new)
  with r show ?thesis by blast
qed

text \<open>
  C8 on the example source, for a generator bound to the parameters 2 and 3.
\<close>

theorem toJSON_shape_witness:
  "\<not> external_prng [JNum (Fin 2), JNum (Fin 3)]
   \<and> factory demo_source [JNum (Fin 2), JNum (Fin 3)] [] =
       Inr (install (JNum (Fin 2)) (JNum (Fin 3)) JUndefined (Internal 0 True), [[5, 7]])
   \<and> toJSON demo_source (install (JNum (Fin 2)) (JNum (Fin 3)) JUndefined (Internal 0 True))
       [[6, 8]] =
       (JObj [(''type'', JStr ''PRNG''),
              (''name'', JStr ''cauchy''),
              (''state'', JObj [(''type'', JStr ''Uint32Array''),
                                (''data'', JArr [JNum (Fin 6), JNum (Fin 8)])]),
              (''params'', JArr [JNum (Fin 2), JNum (Fin 3)])],
        [[6, 8], [6, 8]])"
proof -
  have n: "\<not> external_prng [JNum (Fin 2), JNum (Fin 3)]"
    by (simp add: external_prng_def options_arg_def)
  show ?thesis
    using toJSON_shape [OF demo_factory_bound n, of "[[6, 8]]"] n demo_factory_bound
    by (simp add: install_def deref_def lookup_def)
qed

section \<open>Options\<close>

lemma unrecognized_hasOwnProp:
  "k \<noteq> k' \<Longrightarrow> hasOwnProp (JObj ((k, v) # ps)) k' = hasOwnProp (JObj ps) k'"
  by simp

lemma unrecognized_get_prop:
  "k \<noteq> k' \<Longrightarrow> get_prop (JObj ((k, v) # ps)) k' = get_prop (JObj ps) k'"
  by simp

lemma randn_agree:
  assumes "map_of ps ''prng'' = map_of qs ''prng''" and "map_of ps ''seed'' = map_of qs ''seed''"
    and "map_of ps ''state'' = map_of qs ''state''" and "map_of ps ''copy'' = map_of qs ''copy''"
  shows "randn S (Some (JObj ps)) h = randn S (Some (JObj qs)) h"
  by (simp add: randn_def assms cong: option.case_cong jsval.case_cong if_cong)

lemma randn_unrecognized:
  assumes "k \<notin> recognized"
  shows "randn S (Some (JObj ((k, v) # ps))) h = randn S (Some (JObj ps)) h"
proof -
  from assms have ne: "k \<noteq> ''prng''" "k \<noteq> ''seed''" "k \<noteq> ''state''" "k \<noteq> ''copy''"
    by (auto simp: recognized_def)
  show ?thesis
    by (rule randn_agree) (simp_all add: ne [symmetric])
qed

lemma make_rnorm_unrecognized:
  assumes "k \<notin> recognized"
  shows "make_rnorm S (JObj ((k, v) # ps)) h = make_rnorm S (JObj ps) h"
proof -
  from assms have ne: "k \<noteq> ''prng''" by (auto simp: recognized_def)
  then show ?thesis
    by (simp add: make_rnorm_def randn_unrecognized [OF assms] ne [symmetric])
qed

lemma install_unrecognized:
  assumes "k \<notin> recognized"
  shows "install x0 gamma (JObj ((k, v) # ps)) r = install x0 gamma (JObj ps) r"
proof -
  from assms have ne: "k \<noteq> ''prng''" by (auto simp: recognized_def)
  then show ?thesis
    by (simp add: install_def ne [symmetric])
qed

lemma randn_no_recognized:
  assumes "set (map fst ps) \<inter> recognized = {}"
  shows "randn S (Some (JObj ps)) h = Inr (Internal (length h) True, h @ [default_state S])"
proof -
  have none: "\<And>k. k \<in> recognized \<Longrightarrow> map_of ps k = None"
    using assms by (auto simp: map_of_eq_None_iff)
  have "map_of ps ''prng'' = None" "map_of ps ''seed'' = None"
    "map_of ps ''state'' = None" "map_of ps ''copy'' = None"
    by (rule none, simp add: recognized_def)+
  then show ?thesis
    by (simp add: randn_def alloc_def)
qed

text \<open>
  C9. An options argument that is not a plain object makes \<^verbatim>\<open>factory\<close> throw the error
  about the options argument; an own \<^verbatim>\<open>prng\<close> property that is not a function makes it
  throw the error about the \<^verbatim>\<open>prng\<close> option. This holds for the form with options
  only, and for the form with parameters once the parameters have passed \<^verbatim>\<open>validate\<close>,
  which runs first. A key that is not recognised changes nothing: with it or without it
  \<^verbatim>\<open>factory\<close> returns the same, and an object that has no recognised key is
  accepted.
\<close>

theorem options_errors:
  "(\<not> isObject opts \<longrightarrow>
      factory S [opts] h = Inl (InvalidOptions ''options'' opts) \<and>
      (validate x0 gamma = None \<longrightarrow>
         factory S (x0 # gamma # opts # rest) h = Inl (InvalidOptions ''options'' opts)))
   \<and> (isObject opts \<and> hasOwnProp opts ''prng'' \<and> \<not> isFunction (get_prop opts ''prng'') \<longrightarrow>
        factory S [opts] h = Inl (InvalidOptions ''prng'' (get_prop opts ''prng'')) \<and>
        (validate x0 gamma = None \<longrightarrow>
           factory S (x0 # gamma # opts # rest) h =
             Inl (InvalidOptions ''prng'' (get_prop opts ''prng''))))
   \<and> (k \<notin> recognized \<longrightarrow>
        factory S [JObj ((k, v) # ps)] h = factory S [JObj ps] h \<and>
        factory S (x0 # gamma # JObj ((k, v) # ps) # rest) h =
          factory S (x0 # gamma # JObj ps # rest) h)
   \<and> (set (map fst ps) \<inter> recognized = {} \<longrightarrow>
        (\<exists>g h'. factory S [JObj ps] h = Inr (g, h')) \<and>
        (validate x0 gamma = None \<longrightarrow>
           (\<exists>g h'. factory S (x0 # gamma # JObj ps # rest) h = Inr (g, h'))))"
proof (intro conjI impI)
  assume "\<not> isObject opts"
  then show "factory S [opts] h = Inl (InvalidOptions ''options'' opts)"
    by (simp add: factory_def make_rnorm_def)
next
  assume "\<not> isObject opts" and "validate x0 gamma = None"
  then show "factory S (x0 # gamma # opts # rest) h = Inl (InvalidOptions ''options'' opts)"
    by (simp add: factory_def make_rnorm_def)
next
  assume "isObject opts \<and> hasOwnProp opts ''prng'' \<and> \<not> isFunction (get_prop opts ''prng'')"
  then show "factory S [opts] h = Inl (InvalidOptions ''prng'' (get_prop opts ''prng''))"
    by (simp add: factory_def make_rnorm_def)
next
  assume "isObject opts \<and> hasOwnProp opts ''prng'' \<and> \<not> isFunction (get_prop opts ''prng'')"
    and "validate x0 gamma = None"
  then show "factory S (x0 # gamma # opts # rest) h =
      Inl (InvalidOptions ''prng'' (get_prop opts ''prng''))"
    by (simp add: factory_def make_rnorm_def)
next
  assume k: "k \<notin> recognized"
  show "factory S [JObj ((k, v) # ps)] h = factory S [JObj ps] h"
    by (simp add: factory_def make_rnorm_unrecognized [OF k] install_unrecognized [OF k]
        cong: sum.case_cong option.case_cong)
next
  assume k: "k \<notin> recognized"
  show "factory S (x0 # gamma # JObj ((k, v) # ps) # rest) h =
      factory S (x0 # gamma # JObj ps # rest) h"
    by (simp add: factory_def make_rnorm_unrecognized [OF k] install_unrecognized [OF k]
        cong: sum.case_cong option.case_cong)
next
  assume n: "set (map fst ps) \<inter> recognized = {}"
  then have "map_of ps ''prng'' = None"
    by (auto simp: map_of_eq_None_iff recognized_def)
  then have m: "make_rnorm S (JObj ps) h = randn S (Some (JObj ps)) h"
    by (simp add: make_rnorm_def)
  show "\<exists>g h'. factory S [JObj ps] h = Inr (g, h')"
    by (simp add: factory_def m randn_no_recognized [OF n])
  assume "validate x0 gamma = None"
  then show "\<exists>g h'. factory S (x0 # gamma # JObj ps # rest) h = Inr (g, h')"
    by (simp add: factory_def m randn_no_recognized [OF n])
qed

text \<open>
  C9 on the example source: a number and \<^verbatim>\<open>null\<close> as options, \<^verbatim>\<open>{prng: 123}\<close>, and
  an object with an unknown key.
\<close>

theorem options_errors_witness:
  "factory demo_source [JNum (Fin 5)] [] = Inl (InvalidOptions ''options'' (JNum (Fin 5)))
   \<and> factory demo_source [JNum (Fin 0), JNum (Fin 1), JNull] [] =
       Inl (InvalidOptions ''options'' JNull)
   \<and> factory demo_source [JObj [(''prng'', JNum (Fin 123))]] [] =
       Inl (InvalidOptions ''prng'' (JNum (Fin 123)))
   \<and> factory demo_source [JObj [(''foo'', JBool True)]] [] = factory demo_source [JObj []] []
   \<and> factory demo_source [JObj [(''foo'', JBool True)]] [] =
       Inr (install JUndefined JUndefined JUndefined (Internal 0 True), [[5, 7]])"
proof -
  have v: "validate (JNum (Fin 0)) (JNum (Fin 1)) = None"
    by (simp add: validate_def)
  have k: "''foo'' \<notin> recognized"
    by (simp add: recognized_def)
  have e: "factory demo_source [JObj []] [] =
      Inr (install JUndefined JUndefined JUndefined (Internal 0 True), [[5, 7]])"
    by (simp add: factory_def make_rnorm_def randn_def alloc_def demo_source_def install_def)
  show ?thesis
    using options_errors [of "JNum (Fin 5)" demo_source "[]" "JNum (Fin 0)" "JNum (Fin 1)" "[]"
        "''foo''" "JBool True" "[]"]
      options_errors [of JNull demo_source "[]" "JNum (Fin 0)" "JNum (Fin 1)" "[]"
        "''foo''" "JBool True" "[]"]
      options_errors [of "JObj [(''prng'', JNum (Fin 123))]" demo_source "[]" "JNum (Fin 0)"
        "JNum (Fin 1)" "[]" "''foo''" "JBool True" "[]"]
      v k e
    by simp
qed

lemma binding_independent:
  assumes "validate x0 gamma = None"
    and "factory S [x0, gamma, opts] h = Inr (g1, h1)"
  shows "\<exists>g2. factory S [opts] h = Inr (g2, h1) \<and> c_rnorm g2 = c_rnorm g1 \<and>
           prng S g1 u v k = prng S g2 (num_of x0) (num_of gamma) k"
proof -
  from assms obtain r where r: "make_rnorm S opts h = Inr (r, h1)"
    and g1: "g1 = install x0 gamma opts r"
    by (auto simp: factory_def split: sum.splits)
  let ?g2 = "install JUndefined JUndefined opts r"
  from r have f2: "factory S [opts] h = Inr (?g2, h1)"
    by (simp add: factory_def)
  from assms(1) validate_spec(3) [of x0 gamma]
  obtain a b where a: "x0 = JNum a" "a \<noteq> NaN" and b: "gamma = JNum b" "fgt b (Fin 0)"
    by auto
  from b(2) fgt_zero_valid have ok: "\<not> isnan b \<and> \<not> fle b (Fin 0)" by blast
  from a(2) have "\<not> isnan a" by (cases a) auto
  with ok a b g1 have "prng S g1 u v k = prng S ?g2 (num_of x0) (num_of gamma) k"
    by (simp add: prng_def cauchy1_def cauchy2_def install_def)
  moreover from g1 have "c_rnorm ?g2 = c_rnorm g1" by (simp add: install_def)
  ultimately show ?thesis using f2 by blast
qed

text \<open>
  C7. For every underlying generator and every store, \<^verbatim>\<open>factory( 2.0, 3.0, {seed: 12345} )\<close>
  and \<^verbatim>\<open>factory( {seed: 12345} )\<close> both succeed and leave the same store, and the first
  call of the first generator, whatever its arguments, returns what the first call
  \<^verbatim>\<open>rand( 2.0, 3.0 )\<close> of the second returns.
\<close>

theorem seeded_first_output:
  "\<exists>g1 g2 h1.
     factory S [JNum (Fin 2), JNum (Fin 3), JObj [(''seed'', JNum (Fin 12345))]] h = Inr (g1, h1)
     \<and> factory S [JObj [(''seed'', JNum (Fin 12345))]] h = Inr (g2, h1)
     \<and> fst (prng S g1 u v h1) = fst (prng S g2 (Fin 2) (Fin 3) h1)
     \<and> prng S g1 u v h1 = cauchy0 S (Internal (length h) True) (Fin 2) (Fin 3) h1"
proof -
  let ?opts = "JObj [(''seed'', JNum (Fin 12345))]"
  let ?g1 = "install (JNum (Fin 2)) (JNum (Fin 3)) ?opts (Internal (length h) True)"
  let ?h1 = "h @ [seed_state S [12345]]"
  have v: "validate (JNum (Fin 2)) (JNum (Fin 3)) = None"
    by (simp add: validate_def)
  have f1: "factory S [JNum (Fin 2), JNum (Fin 3), ?opts] h = Inr (?g1, ?h1)"
    by (simp add: factory_def v make_rnorm_def randn_def alloc_def)
  from binding_independent [OF v f1, of u v ?h1]
  obtain g2 where g2: "factory S [?opts] h = Inr (g2, ?h1)"
    and eq: "prng S ?g1 u v ?h1 = prng S g2 (Fin 2) (Fin 3) ?h1"
    by auto
  have c: "prng S ?g1 u v ?h1 = cauchy0 S (Internal (length h) True) (Fin 2) (Fin 3) ?h1"
    by (simp add: prng_def cauchy1_def install_def)
  from f1 g2 eq c show ?thesis by metis
qed

text \<open>
  C7 on the example source.
\<close>

theorem seeded_first_output_witness:
  "factory demo_source [JNum (Fin 2), JNum (Fin 3), JObj [(''seed'', JNum (Fin 12345))]] [] =
     Inr (install (JNum (Fin 2)) (JNum (Fin 3)) (JObj [(''seed'', JNum (Fin 12345))])
            (Internal 0 True), [[12345, 12345]])
   \<and> factory demo_source [JObj [(''seed'', JNum (Fin 12345))]] [] =
     Inr (install JUndefined JUndefined (JObj [(''seed'', JNum (Fin 12345))])
            (Internal 0 True), [[12345, 12345]])
   \<and> fst (prng demo_source
        (install (JNum (Fin 2)) (JNum (Fin 3)) (JObj [(''seed'', JNum (Fin 12345))])
            (Internal 0 True)) NaN NaN [[12345, 12345]])
     = fst (prng demo_source
        (install JUndefined JUndefined (JObj [(''seed'', JNum (Fin 12345))])
            (Internal 0 True)) (Fin 2) (Fin 3) [[12345, 12345]])"
proof -
  have f1: "factory demo_source
      [JNum (Fin 2), JNum (Fin 3), JObj [(''seed'', JNum (Fin 12345))]] [] =
     Inr (install (JNum (Fin 2)) (JNum (Fin 3)) (JObj [(''seed'', JNum (Fin 12345))])
            (Internal 0 True), [[12345, 12345]])"
    by (simp add: factory_def validate_def make_rnorm_def randn_def alloc_def demo_source_def)
  have f2: "factory demo_source [JObj [(''seed'', JNum (Fin 12345))]] [] =
     Inr (install JUndefined JUndefined (JObj [(''seed'', JNum (Fin 12345))])
            (Internal 0 True), [[12345, 12345]])"
    by (simp add: factory_def make_rnorm_def randn_def alloc_def demo_source_def)
  show ?thesis
    using seeded_first_output [of demo_source "[]" NaN NaN] f1 f2
    by auto
qed

section \<open>State: replay, sharing, detachment\<close>

lemma store_store: "store (store h a b) a b' = store h a b'"
  by (simp add: store_def)

lemma cauchy0_internal:
  assumes "a < length h"
  shows "cauchy0 S (Internal a c) x0 gamma h =
           (fst (sample S x0 gamma (deref h a)), store h a (snd (sample S x0 gamma (deref h a))))"
  using assms
  by (simp add: cauchy0_def sample_def split_beta deref_store store_store)

lemma prng_frame:
  assumes "c_rnorm g = Internal a c" and "a < length h"
  shows "length (snd (prng S g x0 gamma h)) = length h
       \<and> (\<forall>a'. a' \<noteq> a \<longrightarrow> deref (snd (prng S g x0 gamma h)) a' = deref h a')"
  using assms
  by (simp add: prng_def cauchy1_def cauchy2_def cauchy0_internal length_store deref_store)

lemma prng_sim:
  assumes "c_rnorm g = Internal a c" and "c_rnorm g' = Internal a' c'"
    and "c_x0 g' = c_x0 g" and "c_gamma g' = c_gamma g"
    and "a < length h" and "a' < length h'" and "deref h a = deref h' a'"
  shows "fst (prng S g x0 gamma h) = fst (prng S g' x0 gamma h')
       \<and> deref (snd (prng S g x0 gamma h)) a = deref (snd (prng S g' x0 gamma h')) a'"
  using assms
  by (simp add: prng_def cauchy1_def cauchy2_def cauchy0_internal deref_store)

lemma calls_frame:
  assumes "c_rnorm g = Internal a c" and "a < length h"
  shows "length (snd (calls S g ps h)) = length h
       \<and> (\<forall>a'. a' \<noteq> a \<longrightarrow> deref (snd (calls S g ps h)) a' = deref h a')"
  using assms(2)
proof (induction ps arbitrary: h)
  case Nil
  show ?case by simp
next
  case (Cons p ps)
  obtain x y where p: "p = (x, y)" by (cases p)
  let ?h1 = "snd (prng S g x y h)"
  from prng_frame [OF assms(1) Cons.prems, of S x y]
  have l: "length ?h1 = length h"
    and f: "\<forall>a'. a' \<noteq> a \<longrightarrow> deref ?h1 a' = deref h a'" by simp_all
  from Cons.prems l have "a < length ?h1" by simp
  from Cons.IH [OF this] l f show ?case
    by (simp add: p split_beta)
qed

lemma calls_sim:
  assumes "c_rnorm g = Internal a c" and "c_rnorm g' = Internal a' c'"
    and "c_x0 g' = c_x0 g" and "c_gamma g' = c_gamma g"
    and "a < length h" and "a' < length h'" and "deref h a = deref h' a'"
  shows "fst (calls S g ps h) = fst (calls S g' ps h')"
  using assms(5-7)
proof (induction ps arbitrary: h h')
  case Nil
  show ?case by simp
next
  case (Cons p ps)
  obtain x y where p: "p = (x, y)" by (cases p)
  let ?h1 = "snd (prng S g x y h)"
  let ?h1' = "snd (prng S g' x y h')"
  from prng_sim [OF assms(1-4) Cons.prems, of S x y]
  have v: "fst (prng S g x y h) = fst (prng S g' x y h')"
    and d: "deref ?h1 a = deref ?h1' a'" by simp_all
  from prng_frame [OF assms(1) Cons.prems(1), of S x y] Cons.prems(1)
  have l: "a < length ?h1" by simp
  from prng_frame [OF assms(2) Cons.prems(2), of S x y] Cons.prems(2)
  have l': "a' < length ?h1'" by simp
  from Cons.IH [OF l l' d] v show ?case
    by (simp add: p split_beta)
qed

text \<open>
  C1. Let \<open>g\<close> be a generator over its own state array, whose current contents are a
  well-formed state. Read \<^verbatim>\<open>state\<close>, make any run of calls (of any length, so of length
  100 or more), assign the value read back to \<^verbatim>\<open>state\<close>: the assignment succeeds, and
  the same run of calls made again returns the same list of numbers.
\<close>

theorem replay_from_snapshot:
  assumes "\<not> degraded g" and "c_rnorm g = Internal a c" and "a < length h"
    and "verify_state S (deref h a)"
  shows "\<exists>s h0 g' h2.
           getState S g h = (s, h0) \<and>
           setState S g s (snd (calls S g ps h0)) = Inr (g', h2) \<and>
           fst (calls S g' ps h2) = fst (calls S g ps h0)"
proof -
  let ?b = "deref h a"
  let ?s = "JU32 (length h)"
  let ?h0 = "h @ [?b]"
  let ?h1 = "snd (calls S g ps ?h0)"
  from assms(1,2) have gs: "getState S g h = (?s, ?h0)"
    by (simp add: getState_def alloc_def)
  from assms(3) have a0: "a < length ?h0" and ne: "length h \<noteq> a" by simp_all
  from assms(3) have d0: "deref ?h0 a = ?b" by (simp add: deref_append_old)
  from calls_frame [OF assms(2) a0, of S ps] ne
  have l1: "length ?h1 = length ?h0" and s1: "deref ?h1 (length h) = ?b"
    by (simp_all add: deref_append_new)
  from l1 have "length h < length ?h1" by simp
  from deref_lookup [OF this] s1 have lk: "lookup ?h1 (length h) = Some ?b"
    by simp
  from l1 a0 have a1: "a < length ?h1" by simp
  have "\<exists>g' h2 a' c'. setState S g ?s ?h1 = Inr (g', h2) \<and> c_rnorm g' = Internal a' c' \<and>
          c_x0 g' = c_x0 g \<and> c_gamma g' = c_gamma g \<and> a' < length h2 \<and> deref h2 a' = ?b"
  proof (cases "length ?b = length (deref ?h1 a)")
    case True
    with assms(1,2,4) lk a1 show ?thesis
      by (auto simp: setState_def deref_store length_store)
  next
    case False
    show ?thesis
    proof (cases c)
      case True
      with False assms(1,2,4) lk show ?thesis
        by (auto simp: setState_def alloc_def deref_append_new)
    next
      case c: False
      from l1 have "length h < length ?h1" by simp
      with c False assms(1,2,4) lk s1 show ?thesis
        by (auto simp: setState_def)
    qed
  qed
  then obtain g' h2 a' c' where st: "setState S g ?s ?h1 = Inr (g', h2)"
    and r': "c_rnorm g' = Internal a' c'" and x: "c_x0 g' = c_x0 g" "c_gamma g' = c_gamma g"
    and a2: "a' < length h2" and d2: "deref h2 a' = ?b"
    by blast
  from d0 d2 have "deref ?h0 a = deref h2 a'" by simp
  from calls_sim [OF assms(2) r' x a0 a2 this, of S ps]
  have "fst (calls S g' ps h2) = fst (calls S g ps ?h0)" by simp
  with gs st show ?thesis by blast
qed

text \<open>
  C1 on the example source: two calls spelled out, and a run of 100 calls.
\<close>

theorem replay_from_snapshot_witness:
  "factory demo_source [] [] =
     Inr (install JUndefined JUndefined JUndefined (Internal 0 True), [[5, 7]])
   \<and> getState demo_source (install JUndefined JUndefined JUndefined (Internal 0 True)) [[5, 7]]
     = (JU32 1, [[5, 7], [5, 7]])
   \<and> calls demo_source (install JUndefined JUndefined JUndefined (Internal 0 True))
       [(Fin 2, Fin 1), (Fin 2, Fin 1)] [[5, 7], [5, 7]]
     = ([Fin (20 / 7), Fin (26 / 9)], [[9, 11], [5, 7]])
   \<and> setState demo_source (install JUndefined JUndefined JUndefined (Internal 0 True))
       (JU32 1) [[9, 11], [5, 7]]
     = Inr (install JUndefined JUndefined JUndefined (Internal 0 True), [[5, 7], [5, 7]])
   \<and> (\<exists>s h0 g' h2.
         getState demo_source (install JUndefined JUndefined JUndefined (Internal 0 True))
           [[5, 7]] = (s, h0) \<and>
         setState demo_source (install JUndefined JUndefined JUndefined (Internal 0 True)) s
           (snd (calls demo_source (install JUndefined JUndefined JUndefined (Internal 0 True))
              (replicate 100 (Fin 2, Fin 1)) h0)) = Inr (g', h2) \<and>
         fst (calls demo_source g' (replicate 100 (Fin 2, Fin 1)) h2) =
         fst (calls demo_source (install JUndefined JUndefined JUndefined (Internal 0 True))
              (replicate 100 (Fin 2, Fin 1)) h0))"
proof -
  let ?g = "install JUndefined JUndefined JUndefined (Internal 0 True)"
  have d: "\<not> degraded ?g" by (simp add: install_def)
  have r: "c_rnorm ?g = Internal 0 True" by (simp add: install_def)
  have l: "0 < length [[5, 7 :: 32 word]]" by simp
  have v: "verify_state demo_source (deref [[5, 7]] 0)"
    by (simp add: demo_source_def deref_def lookup_def)
  have gs: "getState demo_source ?g [[5, 7]] = (JU32 1, [[5, 7], [5, 7]])"
    by (simp add: getState_def install_def alloc_def deref_def lookup_def)
  have cs: "calls demo_source ?g [(Fin 2, Fin 1), (Fin 2, Fin 1)] [[5, 7], [5, 7]]
     = ([Fin (20 / 7), Fin (26 / 9)], [[9, 11], [5, 7]])"
    by (simp add: install_def prng_def cauchy2_def cauchy0_def demo_source_def
        deref_def lookup_def store_def)
  have ss: "setState demo_source ?g (JU32 1) [[9, 11], [5, 7]] = Inr (?g, [[5, 7], [5, 7]])"
    by (simp add: setState_def install_def demo_source_def deref_def lookup_def store_def)
  from replay_from_snapshot [OF d r l v, of "replicate 100 (Fin 2, Fin 1)"] gs cs ss
    demo_factory_unbound
  show ?thesis by blast
qed

lemma prng_draws:
  assumes "c_rnorm g = Internal a c" and "a < length h" and "call_draws g x0 gamma"
  shows "prng S g x0 gamma h =
           (fst (draw_from S g x0 gamma (deref h a)),
            store h a (snd (draw_from S g x0 gamma (deref h a))))"
  using assms
  by (auto simp: prng_def cauchy1_def cauchy2_def cauchy0_internal call_draws_def
      draw_from_def call_params_def)

lemma rebind_call_draws: "call_draws (g\<lparr>c_rnorm := r\<rparr>) x0 gamma = call_draws g x0 gamma"
  by (simp add: call_draws_def)

lemma rebind_draw_from: "draw_from S (g\<lparr>c_rnorm := r\<rparr>) x0 gamma b = draw_from S g x0 gamma b"
  by (simp add: draw_from_def call_params_def)

lemma factory_shared:
  assumes "factory S args h = Inr (g, h')" and "options_arg args = Some opts"
    and "shares_state opts a"
  shows "h' = h \<and> c_rnorm g = Internal a False \<and> \<not> degraded g
       \<and> a < length h \<and> verify_state S (deref h a)"
proof -
  from assms(3) have np: "\<not> hasOwnProp opts ''prng''"
    and st: "get_prop opts ''state'' = JU32 a" and cp: "get_prop opts ''copy'' = JBool False"
    by (simp_all add: shares_state_def)
  from st obtain ps where o: "opts = JObj ps" by (cases opts) auto
  from np o have p: "map_of ps ''prng'' = None" by simp
  from st o have s: "map_of ps ''state'' = Some (JU32 a)"
    by (simp split: option.splits)
  from cp o have c: "map_of ps ''copy'' = Some (JBool False)"
    by (simp split: option.splits)
  have m: "make_rnorm S opts h =
      (case lookup h a of
         None \<Rightarrow> Inl (InvalidOptions ''state'' (JU32 a))
       | Some b \<Rightarrow> if \<not> verify_state S b then Inl (InvalidState (JU32 a))
                  else Inr (Internal a False, h))"
    using o p s c by (simp add: make_rnorm_def randn_def split: option.splits)
  have i: "\<And>x y. degraded (install x y opts (Internal a False)) = False"
    "\<And>x y. c_rnorm (install x y opts (Internal a False)) = Internal a False"
    using o p by (simp_all add: install_def)
  from assms(2) consider (one) "args = [opts]"
    | (three) x0 gamma rest where "args = x0 # gamma # opts # rest"
    by (auto simp: options_arg_def split: list.splits)
  then show ?thesis
  proof cases
    case one
    with assms(1) m i show ?thesis
      by (auto simp: factory_def lookup_def deref_def split: if_splits)
  next
    case three
    with assms(1) m i show ?thesis
      by (auto simp: factory_def lookup_def deref_def split: if_splits option.splits)
  qed
qed

text \<open>
  C6. Let \<open>g1\<close> and \<open>g2\<close> be any two generators built with \<^verbatim>\<open>copy: false\<close> over
  the state array at \<open>a\<close>, each in the form with options only or in the form with bound
  parameters; let \<open>k\<close> be a later store and \<open>b\<close> the contents of a well-formed state
  array at \<open>sa\<close>; let the calls considered be calls that draw (every call of a bound
  generator, a call with valid parameters of an unbound one).
  \<^item> Construction copies nothing and both generators hold the array at \<open>a\<close>.
  \<^item> Sharing: a call of \<open>g1\<close> draws from that array and advances it, and the next call
    of \<open>g2\<close> returns the value drawn from where \<open>g1\<close> left it; so whenever that value
    differs from the one the untouched array gives, the call of \<open>g1\<close> has changed what
    \<open>g2\<close> returns.
  \<^item> Assigning to \<^verbatim>\<open>g1.state\<close> a snapshot as long as the array writes it into the
    array, and the next call of \<open>g2\<close> returns the value drawn from the snapshot.
  \<^item> Detachment: assigning a snapshot of another length rebinds \<open>g1\<close> to the array it
    was given and leaves the store, and so the array of \<open>g2\<close>, as it was. From then on
    \<open>g1\<close> returns the values drawn from the snapshot and \<open>g2\<close> those drawn from the
    array at \<open>a\<close>, so their outputs differ whenever those values differ; whatever run of
    calls one of them makes, the other returns what it would have returned without it,
    and neither writes the other's array.
\<close>

theorem sharing_and_detachment:
  assumes f1: "factory S args1 h = Inr (g1, h1)" and f2: "factory S args2 h1 = Inr (g2, h2)"
    and o1: "options_arg args1 = Some opts1" and o2: "options_arg args2 = Some opts2"
    and s1: "shares_state opts1 a" and s2: "shares_state opts2 a"
    and ak: "a < length k" and lk: "lookup k sa = Some b" and vb: "verify_state S b"
    and c1: "call_draws g1 x1 y1" and c2: "call_draws g2 x2 y2"
  shows "h1 = h \<and> h2 = h \<and> c_rnorm g1 = Internal a False \<and> c_rnorm g2 = Internal a False
     \<and> prng S g1 x1 y1 k =
         (fst (draw_from S g1 x1 y1 (deref k a)),
          store k a (snd (draw_from S g1 x1 y1 (deref k a))))
     \<and> fst (prng S g2 x2 y2 (snd (prng S g1 x1 y1 k))) =
         fst (draw_from S g2 x2 y2 (snd (draw_from S g1 x1 y1 (deref k a))))
     \<and> (fst (draw_from S g2 x2 y2 (snd (draw_from S g1 x1 y1 (deref k a)))) \<noteq>
          fst (draw_from S g2 x2 y2 (deref k a)) \<longrightarrow>
          fst (prng S g2 x2 y2 (snd (prng S g1 x1 y1 k))) \<noteq> fst (prng S g2 x2 y2 k))
     \<and> (length b = length (deref k a) \<longrightarrow>
          setState S g1 (JU32 sa) k = Inr (g1, store k a b) \<and>
          fst (prng S g2 x2 y2 (store k a b)) = fst (draw_from S g2 x2 y2 b))
     \<and> (length b \<noteq> length (deref k a) \<longrightarrow>
          setState S g1 (JU32 sa) k = Inr (g1\<lparr>c_rnorm := Internal sa False\<rparr>, k) \<and>
          sa \<noteq> a \<and>
          fst (prng S (g1\<lparr>c_rnorm := Internal sa False\<rparr>) x1 y1 k) =
            fst (draw_from S g1 x1 y1 b) \<and>
          fst (prng S g2 x2 y2 k) = fst (draw_from S g2 x2 y2 (deref k a)) \<and>
          (fst (draw_from S g1 x1 y1 b) \<noteq> fst (draw_from S g2 x2 y2 (deref k a)) \<longrightarrow>
             fst (prng S (g1\<lparr>c_rnorm := Internal sa False\<rparr>) x1 y1 k) \<noteq>
             fst (prng S g2 x2 y2 k)) \<and>
          fst (calls S g2 qs (snd (calls S (g1\<lparr>c_rnorm := Internal sa False\<rparr>) ps k))) =
            fst (calls S g2 qs k) \<and>
          fst (calls S (g1\<lparr>c_rnorm := Internal sa False\<rparr>) qs (snd (calls S g2 ps k))) =
            fst (calls S (g1\<lparr>c_rnorm := Internal sa False\<rparr>) qs k) \<and>
          deref (snd (calls S (g1\<lparr>c_rnorm := Internal sa False\<rparr>) ps k)) a = deref k a \<and>
          deref (snd (calls S g2 ps k)) sa = b)"
proof -
  from factory_shared [OF f1 o1 s1]
  have h1: "h1 = h" and r1: "c_rnorm g1 = Internal a False" and d1: "\<not> degraded g1"
    by simp_all
  from f2 h1 have f2': "factory S args2 h = Inr (g2, h2)" by simp
  from factory_shared [OF f2' o2 s2]
  have h2: "h2 = h" and r2: "c_rnorm g2 = Internal a False" and d2: "\<not> degraded g2"
    by simp_all
  let ?k1 = "store k a (snd (draw_from S g1 x1 y1 (deref k a)))"
  have p1: "prng S g1 x1 y1 k = (fst (draw_from S g1 x1 y1 (deref k a)), ?k1)"
    by (rule prng_draws [OF r1 ak c1])
  have ak1: "a < length ?k1" using ak by (simp add: length_store)
  have dk1: "deref ?k1 a = snd (draw_from S g1 x1 y1 (deref k a))"
    using ak by (simp add: deref_store)
  from prng_draws [OF r2 ak1 c2] dk1 p1
  have p2: "fst (prng S g2 x2 y2 (snd (prng S g1 x1 y1 k))) =
         fst (draw_from S g2 x2 y2 (snd (draw_from S g1 x1 y1 (deref k a))))"
    by simp
  from prng_draws [OF r2 ak c2]
  have v2: "fst (prng S g2 x2 y2 k) = fst (draw_from S g2 x2 y2 (deref k a))" by simp
  from p2 v2
  have affects: "fst (draw_from S g2 x2 y2 (snd (draw_from S g1 x1 y1 (deref k a)))) \<noteq>
          fst (draw_from S g2 x2 y2 (deref k a)) \<longrightarrow>
          fst (prng S g2 x2 y2 (snd (prng S g1 x1 y1 k))) \<noteq> fst (prng S g2 x2 y2 k)"
    by simp
  from lk have sak: "sa < length k" and dsa: "deref k sa = b"
    by (auto simp: lookup_def deref_def split: if_splits)
  have same: "length b = length (deref k a) \<longrightarrow>
          setState S g1 (JU32 sa) k = Inr (g1, store k a b) \<and>
          fst (prng S g2 x2 y2 (store k a b)) = fst (draw_from S g2 x2 y2 b)"
  proof
    assume e: "length b = length (deref k a)"
    from e d1 r1 lk vb
    have s: "setState S g1 (JU32 sa) k = Inr (g1\<lparr>c_rnorm := Internal a False\<rparr>, store k a b)"
      by (simp add: setState_def)
    from r1 have "g1\<lparr>c_rnorm := Internal a False\<rparr> = g1" by simp
    with s have s': "setState S g1 (JU32 sa) k = Inr (g1, store k a b)" by simp
    have al: "a < length (store k a b)" using ak by (simp add: length_store)
    from prng_draws [OF r2 al c2] ak
    have "fst (prng S g2 x2 y2 (store k a b)) = fst (draw_from S g2 x2 y2 b)"
      by (simp add: deref_store)
    with s' show "setState S g1 (JU32 sa) k = Inr (g1, store k a b) \<and>
          fst (prng S g2 x2 y2 (store k a b)) = fst (draw_from S g2 x2 y2 b)" by simp
  qed
  have diff: "length b \<noteq> length (deref k a) \<longrightarrow>
          setState S g1 (JU32 sa) k = Inr (g1\<lparr>c_rnorm := Internal sa False\<rparr>, k) \<and>
          sa \<noteq> a \<and>
          fst (prng S (g1\<lparr>c_rnorm := Internal sa False\<rparr>) x1 y1 k) =
            fst (draw_from S g1 x1 y1 b) \<and>
          fst (prng S g2 x2 y2 k) = fst (draw_from S g2 x2 y2 (deref k a)) \<and>
          (fst (draw_from S g1 x1 y1 b) \<noteq> fst (draw_from S g2 x2 y2 (deref k a)) \<longrightarrow>
             fst (prng S (g1\<lparr>c_rnorm := Internal sa False\<rparr>) x1 y1 k) \<noteq>
             fst (prng S g2 x2 y2 k)) \<and>
          fst (calls S g2 qs (snd (calls S (g1\<lparr>c_rnorm := Internal sa False\<rparr>) ps k))) =
            fst (calls S g2 qs k) \<and>
          fst (calls S (g1\<lparr>c_rnorm := Internal sa False\<rparr>) qs (snd (calls S g2 ps k))) =
            fst (calls S (g1\<lparr>c_rnorm := Internal sa False\<rparr>) qs k) \<and>
          deref (snd (calls S (g1\<lparr>c_rnorm := Internal sa False\<rparr>) ps k)) a = deref k a \<and>
          deref (snd (calls S g2 ps k)) sa = b"
  proof
    assume n: "length b \<noteq> length (deref k a)"
    let ?g = "g1\<lparr>c_rnorm := Internal sa False\<rparr>"
    from n d1 r1 lk vb have s: "setState S g1 (JU32 sa) k = Inr (?g, k)"
      by (simp add: setState_def)
    from n dsa have ne: "sa \<noteq> a" by auto
    have rg: "c_rnorm ?g = Internal sa False" by simp
    from c1 have cg: "call_draws ?g x1 y1" by (simp add: rebind_call_draws)
    from prng_draws [OF rg sak cg] dsa
    have v1: "fst (prng S ?g x1 y1 k) = fst (draw_from S g1 x1 y1 b)"
      by (simp add: rebind_draw_from)
    from v1 v2
    have dv: "fst (draw_from S g1 x1 y1 b) \<noteq> fst (draw_from S g2 x2 y2 (deref k a)) \<longrightarrow>
             fst (prng S ?g x1 y1 k) \<noteq> fst (prng S g2 x2 y2 k)"
      by simp
    from calls_frame [OF rg sak, of S ps] ne
    have l1: "length (snd (calls S ?g ps k)) = length k"
      and fr1: "deref (snd (calls S ?g ps k)) a = deref k a" by simp_all
    from calls_frame [OF r2 ak, of S ps] ne dsa
    have l2: "length (snd (calls S g2 ps k)) = length k"
      and fr2: "deref (snd (calls S g2 ps k)) sa = b" by simp_all
    from l1 ak have a1: "a < length (snd (calls S ?g ps k))" by simp
    from l2 sak have a2: "sa < length (snd (calls S g2 ps k))" by simp
    have i1: "fst (calls S g2 qs (snd (calls S ?g ps k))) = fst (calls S g2 qs k)"
      by (rule calls_sim [OF r2 r2 refl refl a1 ak fr1])
    from fr2 dsa have "deref (snd (calls S g2 ps k)) sa = deref k sa" by simp
    from calls_sim [OF rg rg refl refl a2 sak this]
    have i2: "fst (calls S ?g qs (snd (calls S g2 ps k))) = fst (calls S ?g qs k)" .
    from s ne v1 v2 dv i1 i2 fr1 fr2
    show "setState S g1 (JU32 sa) k = Inr (?g, k) \<and> sa \<noteq> a \<and>
          fst (prng S ?g x1 y1 k) = fst (draw_from S g1 x1 y1 b) \<and>
          fst (prng S g2 x2 y2 k) = fst (draw_from S g2 x2 y2 (deref k a)) \<and>
          (fst (draw_from S g1 x1 y1 b) \<noteq> fst (draw_from S g2 x2 y2 (deref k a)) \<longrightarrow>
             fst (prng S ?g x1 y1 k) \<noteq> fst (prng S g2 x2 y2 k)) \<and>
          fst (calls S g2 qs (snd (calls S ?g ps k))) = fst (calls S g2 qs k) \<and>
          fst (calls S ?g qs (snd (calls S g2 ps k))) = fst (calls S ?g qs k) \<and>
          deref (snd (calls S ?g ps k)) a = deref k a \<and>
          deref (snd (calls S g2 ps k)) sa = b"
      by blast
  qed
  from h1 h2 r1 r2 p1 p2 affects same diff show ?thesis by blast
qed

lemma demo_factory_shared_bound:
  "factory demo_source
     [JNum (Fin 2), JNum (Fin 3), JObj [(''state'', JU32 0), (''copy'', JBool False)]]
     [[1, 2], [9, 9, 9], [3, 4]] =
   Inr (install (JNum (Fin 2)) (JNum (Fin 3))
          (JObj [(''state'', JU32 0), (''copy'', JBool False)]) (Internal 0 False),
        [[1, 2], [9, 9, 9], [3, 4]])"
  by (simp add: factory_def validate_def make_rnorm_def randn_def lookup_def demo_source_def)

lemma demo_factory_shared:
  "factory demo_source [JObj [(''state'', JU32 0), (''copy'', JBool False)]]
     [[1, 2], [9, 9, 9], [3, 4]] =
   Inr (install JUndefined JUndefined (JObj [(''state'', JU32 0), (''copy'', JBool False)])
          (Internal 0 False), [[1, 2], [9, 9, 9], [3, 4]])"
  by (simp add: factory_def make_rnorm_def randn_def lookup_def demo_source_def)

text \<open>
  C6 on the example source, with the shared array \<open>[1, 2]\<close>, the first generator bound
  to 2 and 3 and the second unbound. The second generator's call after the first one's
  returns \<open>7 / 9\<close>, not the \<open>3 / 5\<close> it returns from the untouched array. A snapshot of
  length two is written into the shared array. A snapshot of length three detaches the
  first generator, which then returns \<open>47 / 10\<close> where the second returns \<open>3 / 5\<close>.
\<close>

theorem sharing_and_detachment_witness:
  "factory demo_source
     [JNum (Fin 2), JNum (Fin 3), JObj [(''state'', JU32 0), (''copy'', JBool False)]]
     [[1, 2], [9, 9, 9], [3, 4]] =
   Inr (install (JNum (Fin 2)) (JNum (Fin 3))
          (JObj [(''state'', JU32 0), (''copy'', JBool False)]) (Internal 0 False),
        [[1, 2], [9, 9, 9], [3, 4]])
   \<and> factory demo_source [JObj [(''state'', JU32 0), (''copy'', JBool False)]]
     [[1, 2], [9, 9, 9], [3, 4]] =
   Inr (install JUndefined JUndefined (JObj [(''state'', JU32 0), (''copy'', JBool False)])
          (Internal 0 False), [[1, 2], [9, 9, 9], [3, 4]])
   \<and> prng demo_source
        (install (JNum (Fin 2)) (JNum (Fin 3))
          (JObj [(''state'', JU32 0), (''copy'', JBool False)]) (Internal 0 False))
        NaN NaN [[1, 2], [9, 9, 9], [3, 4]]
      = (Fin (19 / 5), [[3, 4], [9, 9, 9], [3, 4]])
   \<and> fst (prng demo_source
        (install JUndefined JUndefined (JObj [(''state'', JU32 0), (''copy'', JBool False)])
          (Internal 0 False)) (Fin 0) (Fin 1) [[3, 4], [9, 9, 9], [3, 4]])
      = Fin (7 / 9)
   \<and> fst (prng demo_source
        (install JUndefined JUndefined (JObj [(''state'', JU32 0), (''copy'', JBool False)])
          (Internal 0 False)) (Fin 0) (Fin 1) [[3, 4], [9, 9, 9], [3, 4]])
      \<noteq> fst (prng demo_source
        (install JUndefined JUndefined (JObj [(''state'', JU32 0), (''copy'', JBool False)])
          (Internal 0 False)) (Fin 0) (Fin 1) [[1, 2], [9, 9, 9], [3, 4]])
   \<and> setState demo_source
        (install (JNum (Fin 2)) (JNum (Fin 3))
          (JObj [(''state'', JU32 0), (''copy'', JBool False)]) (Internal 0 False))
        (JU32 2) [[1, 2], [9, 9, 9], [3, 4]]
      = Inr (install (JNum (Fin 2)) (JNum (Fin 3))
               (JObj [(''state'', JU32 0), (''copy'', JBool False)]) (Internal 0 False),
             [[3, 4], [9, 9, 9], [3, 4]])
   \<and> setState demo_source
        (install (JNum (Fin 2)) (JNum (Fin 3))
          (JObj [(''state'', JU32 0), (''copy'', JBool False)]) (Internal 0 False))
        (JU32 1) [[1, 2], [9, 9, 9], [3, 4]]
      = Inr (install (JNum (Fin 2)) (JNum (Fin 3))
               (JObj [(''state'', JU32 0), (''copy'', JBool False)]) (Internal 1 False),
             [[1, 2], [9, 9, 9], [3, 4]])
   \<and> fst (prng demo_source
        (install (JNum (Fin 2)) (JNum (Fin 3))
          (JObj [(''state'', JU32 0), (''copy'', JBool False)]) (Internal 1 False))
        NaN NaN [[1, 2], [9, 9, 9], [3, 4]])
      = Fin (47 / 10)
   \<and> fst (prng demo_source
        (install JUndefined JUndefined (JObj [(''state'', JU32 0), (''copy'', JBool False)])
          (Internal 0 False)) (Fin 0) (Fin 1) [[1, 2], [9, 9, 9], [3, 4]])
      = Fin (3 / 5)
   \<and> fst (prng demo_source
        (install (JNum (Fin 2)) (JNum (Fin 3))
          (JObj [(''state'', JU32 0), (''copy'', JBool False)]) (Internal 1 False))
        NaN NaN [[1, 2], [9, 9, 9], [3, 4]])
      \<noteq> fst (prng demo_source
        (install JUndefined JUndefined (JObj [(''state'', JU32 0), (''copy'', JBool False)])
          (Internal 0 False)) (Fin 0) (Fin 1) [[1, 2], [9, 9, 9], [3, 4]])"
proof -
  let ?opts = "JObj [(''state'', JU32 0), (''copy'', JBool False)]"
  let ?h = "[[1, 2], [9, 9, 9], [3, 4 :: 32 word]]"
  let ?g1 = "install (JNum (Fin 2)) (JNum (Fin 3)) ?opts (Internal 0 False)"
  let ?g1' = "install (JNum (Fin 2)) (JNum (Fin 3)) ?opts (Internal 1 False)"
  let ?g2 = "install JUndefined JUndefined ?opts (Internal 0 False)"
  have o1: "options_arg [JNum (Fin 2), JNum (Fin 3), ?opts] = Some ?opts"
    by (simp add: options_arg_def)
  have o2: "options_arg [?opts] = Some ?opts"
    by (simp add: options_arg_def)
  have sh: "shares_state ?opts 0" by (simp add: shares_state_def)
  have ak: "0 < length ?h" by simp
  have l2: "lookup ?h 2 = Some [3, 4]" by (simp add: lookup_def)
  have l1: "lookup ?h 1 = Some [9, 9, 9]" by (simp add: lookup_def)
  have v2: "verify_state demo_source [3, 4]" by (simp add: demo_source_def)
  have v1: "verify_state demo_source [9, 9, 9]" by (simp add: demo_source_def)
  have c1: "call_draws ?g1 NaN NaN" by (simp add: call_draws_def install_def)
  have c2: "call_draws ?g2 (Fin 0) (Fin 1)" by (simp add: call_draws_def install_def)
  have s0: "draw_from demo_source ?g1 NaN NaN [1, 2] = (Fin (19 / 5), [3, 4])"
    by (simp add: draw_from_def call_params_def install_def sample_def demo_source_def)
  have s1: "draw_from demo_source ?g2 (Fin 0) (Fin 1) [3, 4] = (Fin (7 / 9), [5, 6])"
    by (simp add: draw_from_def call_params_def install_def sample_def demo_source_def)
  have s2: "draw_from demo_source ?g1 NaN NaN [9, 9, 9] = (Fin (47 / 10), [11, 11, 11])"
    by (simp add: draw_from_def call_params_def install_def sample_def demo_source_def)
  have s3: "draw_from demo_source ?g2 (Fin 0) (Fin 1) [1, 2] = (Fin (3 / 5), [3, 4])"
    by (simp add: draw_from_def call_params_def install_def sample_def demo_source_def)
  have d: "deref ?h 0 = [1, 2]" by (simp add: deref_def lookup_def)
  have w: "store ?h 0 [3, 4] = [[3, 4], [9, 9, 9], [3, 4]]" by (simp add: store_def)
  have u: "?g1\<lparr>c_rnorm := Internal (Suc 0) False\<rparr> = ?g1'" by (simp add: install_def)
  note A = sharing_and_detachment [OF demo_factory_shared_bound demo_factory_shared o1 o2 sh sh
      ak l2 v2 c1 c2, of "[]" "[]", unfolded d s0 s1 s2 s3 w fst_conv snd_conv]
  note B = sharing_and_detachment [OF demo_factory_shared_bound demo_factory_shared o1 o2 sh sh
      ak l1 v1 c1 c2, of "[]" "[]", unfolded d s0 s1 s2 s3 w fst_conv snd_conv]
  from A have a1: "prng demo_source ?g1 NaN NaN ?h = (Fin (19 / 5), [[3, 4], [9, 9, 9], [3, 4]])"
    by simp
  from A have a2: "fst (prng demo_source ?g2 (Fin 0) (Fin 1) [[3, 4], [9, 9, 9], [3, 4]])
      = Fin (7 / 9)"
    by (simp add: a1)
  from A have a4: "setState demo_source ?g1 (JU32 2) ?h
      = Inr (?g1, [[3, 4], [9, 9, 9], [3, 4]])"
    by simp
  from B have b1: "setState demo_source ?g1 (JU32 1) ?h = Inr (?g1', ?h)"
    by (simp add: u)
  from B have b2: "fst (prng demo_source ?g1' NaN NaN ?h) = Fin (47 / 10)"
    by (simp add: u)
  from B have b3: "fst (prng demo_source ?g2 (Fin 0) (Fin 1) ?h) = Fin (3 / 5)"
    by simp
  from A have a3: "fst (prng demo_source ?g2 (Fin 0) (Fin 1) [[3, 4], [9, 9, 9], [3, 4]])
      \<noteq> fst (prng demo_source ?g2 (Fin 0) (Fin 1) ?h)"
    by (simp add: a1 b3)
  from B have b4: "fst (prng demo_source ?g1' NaN NaN ?h)
      \<noteq> fst (prng demo_source ?g2 (Fin 0) (Fin 1) ?h)"
    by (simp add: u)
  from demo_factory_shared_bound demo_factory_shared a1 a2 a3 a4 b1 b2 b3 b4
  show ?thesis by blast
qed

end
